theory Spec2Isabelle
  imports Complex_Main
begin

section \<open>Values, rows and data frames\<close>

text \<open>
  The pipeline works on pandas data frames whose cells are floats, strings, timestamps or
  \<open>None\<close>; a cell \<open>Date d\<close> is the printed date of day \<open>d\<close>.  A float is a real number,
  \<open>NaN\<close> or an infinity; the sign of zero is not modelled.  The operations \<open>fadd\<close>,
  \<open>fmul\<close> and \<open>fdiv\<close> below are exact; the product that decides the direction of a
  forecast is rounded as the machine rounds it (\<open>fmul64\<close>).  A timestamp is a number of
  microseconds since the epoch; its calendar date, which the source prints with
  \<open>strftime('%Y-%m-%d')\<close>, is the day number:
  for four-digit years the order of the printed strings is the order of the day numbers.
\<close>

datatype fnum = NaN | NInf | Num real | PInf

datatype cell = Val fnum | Str string | Ts int | Date int | Bool bool | PyNone

type_synonym row = "string \<Rightarrow> cell"

record frame =
  columns :: "string list"
  rows :: "row list"

definition day_us :: int where
  "day_us = 86400000000"

definition date_str :: "int \<Rightarrow> int" where
  "date_str t = t div day_us"

definition timedelta_days :: "int \<Rightarrow> int" where
  "timedelta_days d = d * day_us"

text \<open>\<open>pd.isna\<close>: both \<open>None\<close> and \<open>NaN\<close> are missing values.\<close>

definition isna :: "cell \<Rightarrow> bool" where
  "isna c = (c = PyNone \<or> c = Val NaN)"

definition num :: "cell \<Rightarrow> fnum" where
  "num c = (case c of Val x \<Rightarrow> x | _ \<Rightarrow> NaN)"

definition ts_of :: "row \<Rightarrow> int" where
  "ts_of r = (case r ''timestamp'' of Ts t \<Rightarrow> t | _ \<Rightarrow> 0)"

definition empty_frame :: frame where
  "empty_frame = \<lparr>columns = [], rows = []\<rparr>"

text \<open>\<open>df.empty\<close>: no column or no row.\<close>

definition is_empty :: "frame \<Rightarrow> bool" where
  "is_empty df = (columns df = [] \<or> rows df = [])"

definition col :: "string \<Rightarrow> frame \<Rightarrow> cell list" where
  "col c df = map (\<lambda>r. r c) (rows df)"

definition nth_or_nan :: "cell list \<Rightarrow> nat \<Rightarrow> cell" where
  "nth_or_nan vs i = (if i < length vs then vs ! i else Val NaN)"

text \<open>
  \<open>df[c] = vs\<close>: the column is added at the end, or replaced when it exists; the values
  are aligned on the index, a position without a value becomes \<open>NaN\<close>.
\<close>

definition assign :: "string \<Rightarrow> cell list \<Rightarrow> frame \<Rightarrow> frame" where
  "assign c vs df =
     \<lparr>columns = (if c \<in> set (columns df) then columns df else columns df @ [c]),
      rows = map (\<lambda>(i, r). r(c := nth_or_nan vs i)) (enumerate 0 (rows df))\<rparr>"

definition assign_scalar :: "string \<Rightarrow> cell \<Rightarrow> frame \<Rightarrow> frame" where
  "assign_scalar c v df = assign c (replicate (length (rows df)) v) df"

text \<open>
  \<open>Series.shift(periods)\<close>: a positive period moves the values down (towards later
  positions), a negative one up; the positions left free are \<open>NaN\<close>.
\<close>

definition shift :: "int \<Rightarrow> cell list \<Rightarrow> cell list" where
  "shift periods xs =
     (if 0 \<le> periods
      then take (length xs) (replicate (nat periods) (Val NaN) @ xs)
      else drop (nat (- periods)) xs @ replicate (min (length xs) (nat (- periods))) (Val NaN))"

subsection \<open>Float arithmetic and comparison\<close>

text \<open>
  IEEE behaviour of the operations the pipeline uses: a comparison with \<open>NaN\<close> is false,
  a division by zero gives an infinity (or \<open>NaN\<close> for \<open>0 / 0\<close>) instead of raising.
\<close>

fun fgt :: "fnum \<Rightarrow> fnum \<Rightarrow> bool" where
  "fgt NaN _ = False"
| "fgt _ NaN = False"
| "fgt NInf _ = False"
| "fgt _ NInf = True"
| "fgt PInf PInf = False"
| "fgt PInf _ = True"
| "fgt _ PInf = False"
| "fgt (Num x) (Num y) = (y < x)"

definition flt :: "fnum \<Rightarrow> fnum \<Rightarrow> bool" where
  "flt a b = fgt b a"

fun fneg :: "fnum \<Rightarrow> fnum" where
  "fneg NaN = NaN"
| "fneg NInf = PInf"
| "fneg PInf = NInf"
| "fneg (Num x) = Num (- x)"

fun fabs :: "fnum \<Rightarrow> fnum" where
  "fabs NaN = NaN"
| "fabs NInf = PInf"
| "fabs PInf = PInf"
| "fabs (Num x) = Num \<bar>x\<bar>"

fun fadd :: "fnum \<Rightarrow> fnum \<Rightarrow> fnum" where
  "fadd NaN _ = NaN"
| "fadd _ NaN = NaN"
| "fadd PInf NInf = NaN"
| "fadd NInf PInf = NaN"
| "fadd PInf _ = PInf"
| "fadd _ PInf = PInf"
| "fadd NInf _ = NInf"
| "fadd _ NInf = NInf"
| "fadd (Num x) (Num y) = Num (x + y)"

definition fsub :: "fnum \<Rightarrow> fnum \<Rightarrow> fnum" where
  "fsub a b = fadd a (fneg b)"

definition inf_of_sign :: "bool \<Rightarrow> fnum" where
  "inf_of_sign positive = (if positive then PInf else NInf)"

fun fmul :: "fnum \<Rightarrow> fnum \<Rightarrow> fnum" where
  "fmul NaN _ = NaN"
| "fmul _ NaN = NaN"
| "fmul (Num x) (Num y) = Num (x * y)"
| "fmul (Num x) b = (if x = 0 then NaN else inf_of_sign ((0 < x) = (b = PInf)))"
| "fmul a (Num y) = (if y = 0 then NaN else inf_of_sign ((0 < y) = (a = PInf)))"
| "fmul a b = inf_of_sign (a = b)"

fun fdiv :: "fnum \<Rightarrow> fnum \<Rightarrow> fnum" where
  "fdiv NaN _ = NaN"
| "fdiv _ NaN = NaN"
| "fdiv (Num x) (Num y) =
     (if y = 0 then (if x = 0 then NaN else inf_of_sign (0 < x)) else Num (x / y))"
| "fdiv (Num x) _ = Num 0"
| "fdiv a (Num y) = inf_of_sign ((0 \<le> y) = (a = PInf))"
| "fdiv _ _ = NaN"

subsection \<open>Rounding to binary64\<close>

text \<open>
  \<open>float64 x\<close> is the double nearest to the real \<open>x\<close>, ties going to the even
  significand: 53 significant bits, the least exponent -1022 (below it the spacing stays
  \<open>2 ^ -1074\<close>), and an infinity when the rounded value reaches \<open>2 ^ 1024\<close>.  The
  literals \<open>1.001\<close> and \<open>0.999\<close> of the source are the doubles nearest to these decimals.
\<close>

definition round_even :: "real \<Rightarrow> int" where
  "round_even x =
     (let f = \<lfloor>x\<rfloor>; d = x - of_int f
      in if d < 1 / 2 then f else if 1 / 2 < d then f + 1 else if even f then f else f + 1)"

definition float64 :: "real \<Rightarrow> fnum" where
  "float64 x =
     (if x = 0 then Num 0
      else
        (let e = max \<lfloor>log 2 \<bar>x\<bar>\<rfloor> (- 1022);
             q = 2 powr (of_int e - 52);
             r = of_int (round_even (x / q)) * q
         in if 2 ^ 1024 \<le> \<bar>r\<bar> then inf_of_sign (0 < x) else Num r))"

text \<open>The product of two doubles, as the machine computes it.\<close>

definition fmul64 :: "fnum \<Rightarrow> fnum \<Rightarrow> fnum" where
  "fmul64 a b = (case (a, b) of (Num x, Num y) \<Rightarrow> float64 (x * y) | _ \<Rightarrow> fmul a b)"

definition float_1_001 :: real where
  "float_1_001 = 2254051613498933 / 2 ^ 51"

definition float_0_999 :: real where
  "float_0_999 = 8998192055486251 / 2 ^ 53"

subsection \<open>Library routines\<close>

text \<open>
  The rolling statistics of pandas and the indicators of the \<open>ta\<close> package are not code of
  this repository.  They are parameters of the model: every result below holds whatever
  these routines compute.  Each takes columns and returns a column.
\<close>

record pandas_lib =
  rolling_mean :: "nat \<Rightarrow> cell list \<Rightarrow> cell list"
  rolling_std :: "nat \<Rightarrow> cell list \<Rightarrow> cell list"
  rolling_corr :: "nat \<Rightarrow> cell list \<Rightarrow> cell list \<Rightarrow> cell list"
  pct_change :: "nat \<Rightarrow> cell list \<Rightarrow> cell list"
  mean_axis1 :: "cell list list \<Rightarrow> cell list"

record ta_lib =
  sma_indicator :: "cell list \<Rightarrow> nat \<Rightarrow> cell list"
  ema_indicator :: "cell list \<Rightarrow> nat \<Rightarrow> cell list"
  rsi :: "cell list \<Rightarrow> nat \<Rightarrow> cell list"
  macd :: "cell list \<Rightarrow> cell list"
  macd_signal :: "cell list \<Rightarrow> cell list"
  macd_diff :: "cell list \<Rightarrow> cell list"
  bollinger_hband :: "cell list \<Rightarrow> cell list"
  bollinger_mavg :: "cell list \<Rightarrow> cell list"
  bollinger_lband :: "cell list \<Rightarrow> cell list"
  average_true_range :: "cell list \<Rightarrow> cell list \<Rightarrow> cell list \<Rightarrow> nat \<Rightarrow> cell list"
  on_balance_volume :: "cell list \<Rightarrow> cell list \<Rightarrow> cell list"

section \<open>The advanced model: feature preparation (\<open>models/advanced_model.py\<close>)\<close>

definition base_feature_columns :: "string list" where
  "base_feature_columns =
     [''sma_5'', ''sma_20'', ''sma_50'', ''ema_12'', ''ema_26'',
      ''rsi_14'', ''macd'', ''macd_signal'', ''macd_histogram'',
      ''bollinger_upper'', ''bollinger_middle'', ''bollinger_lower'',
      ''atr_14'',
      ''returns_1d'', ''returns_5d'', ''returns_20d'', ''volatility_20d'',
      ''volume_ratio'',
      ''correlation_nifty_bank'', ''correlation_banking_peers'', ''relative_strength_sector'',
      ''trend_strength'']"

definition lag_features :: "string list" where
  "lag_features = [''returns_1d'', ''rsi_14'', ''macd'', ''volatility_20d'']"

definition all_regimes :: "string list" where
  "all_regimes = [''high_volatility'', ''ranging'', ''trending_down'', ''trending_up'']"

definition regime_col :: "string \<Rightarrow> string" where
  "regime_col regime = ''regime_'' @ regime"

text \<open>One turn of the loop over \<open>lag_features\<close>; the state is the frame and \<open>self.feature_columns\<close>.\<close>

definition add_lags :: "frame \<times> string list \<Rightarrow> string \<Rightarrow> frame \<times> string list" where
  "add_lags s c =
     (case s of (df, fc) \<Rightarrow>
        if c \<in> set (columns df)
        then (let df1 = assign (c @ ''_lag1'') (shift 1 (col c df)) df;
                  df2 = assign (c @ ''_lag2'') (shift 2 (col c df1)) df1
              in (df2, fc @ [c @ ''_lag1'', c @ ''_lag2'']))
        else (df, fc))"

definition add_rolling :: "pandas_lib \<Rightarrow> frame \<times> string list \<Rightarrow> frame \<times> string list" where
  "add_rolling lib s =
     (case s of (df, fc) \<Rightarrow>
        if ''returns_1d'' \<in> set (columns df)
        then (let df1 = assign ''returns_1d_rolling_mean_5''
                          (rolling_mean lib 5 (col ''returns_1d'' df)) df;
                  df2 = assign ''returns_1d_rolling_std_5''
                          (rolling_std lib 5 (col ''returns_1d'' df1)) df1
              in (df2, fc @ [''returns_1d_rolling_mean_5'', ''returns_1d_rolling_std_5'']))
        else (df, fc))"

text \<open>\<open>df.loc[mask, c] = 1\<close> with \<open>mask = df['regime_classification'] == regime\<close>.\<close>

definition set_regime_flag :: "frame \<Rightarrow> string \<Rightarrow> frame" where
  "set_regime_flag df regime =
     df\<lparr>rows := map (\<lambda>r. if r ''regime_classification'' = Str regime
                          then r(regime_col regime := Val (Num 1)) else r) (rows df)\<rparr>"

definition init_regime_flag :: "frame \<Rightarrow> string \<Rightarrow> frame" where
  "init_regime_flag df regime = assign_scalar (regime_col regime) (Val (Num 0)) df"

definition encode_regime :: "frame \<times> string list \<Rightarrow> frame \<times> string list" where
  "encode_regime s =
     (case s of (df, fc) \<Rightarrow>
        if ''regime_classification'' \<in> set (columns df)
        then (let df1 = foldl init_regime_flag df all_regimes;
                  df2 = foldl set_regime_flag df1 all_regimes;
                  regime_cols = map regime_col all_regimes
              in (df2, if \<not> (\<exists>c \<in> set regime_cols. c \<in> set fc) then fc @ regime_cols else fc))
        else (df, fc))"

text \<open>
  \<open>prepare_features\<close> returns the frame; the second component is the value it leaves in
  \<open>self.feature_columns\<close>.
\<close>

definition prepare_features :: "pandas_lib \<Rightarrow> frame \<Rightarrow> frame \<times> string list" where
  "prepare_features lib df =
     encode_regime (add_rolling lib (foldl add_lags (df, base_feature_columns) lag_features))"

section \<open>Prediction with intervals (\<open>AdvancedXGBoostModel.predict\<close>)\<close>

text \<open>
  The fitted regressor is a function from a feature vector (a missing feature is \<open>None\<close>)
  to a price; it is absent until a model has been trained or loaded.  The fitted
  \<open>StandardScaler\<close> holds one mean and one scale per feature.
\<close>

record standard_scaler =
  scaler_mean :: "real list"
  scaler_scale :: "real list"

record advanced_model =
  model :: "(real option list \<Rightarrow> real) option"
  scaler :: "standard_scaler option"

definition MODEL_NAME :: string where "MODEL_NAME = ''advanced_xgboost''"
definition MODEL_VERSION :: string where "MODEL_VERSION = ''v1.0''"
definition FEATURE_VERSION :: string where "FEATURE_VERSION = ''v1''"

record forecast_cols =
  predicted_price :: real
  confidence_lower :: real
  confidence_upper :: real

text \<open>\<open>np.std\<close>: the population standard deviation.\<close>

definition np_std :: "real list \<Rightarrow> real" where
  "np_std xs =
     (let n = real (length xs); mu = sum_list xs / n
      in sqrt (sum_list (map (\<lambda>x. (x - mu)\<^sup>2) xs) / n))"

text \<open>
  \<open>predict\<close>: one result row per input row.  With no regressor the call inside the
  \<open>try\<close> raises and the empty frame is returned.
\<close>

definition predict :: "advanced_model \<Rightarrow> real option list list \<Rightarrow> real \<Rightarrow> forecast_cols list" where
  "predict m X confidence_level =
     (case model m of
        None \<Rightarrow> []
      | Some f \<Rightarrow>
          (let predictions = map f X;
               std_error = np_std predictions * 0.1;
               z_score = 1.96
           in map (\<lambda>p. \<lparr>predicted_price = p,
                         confidence_lower = p - z_score * std_error,
                         confidence_upper = p + z_score * std_error\<rparr>) predictions))"

section \<open>The prediction service (\<open>services/prediction_service.py\<close>)\<close>

definition service_symbol :: string where
  "service_symbol = ''HDFCBANK.NS''"

text \<open>
  A table of the store is the list of its rows.  The columns a \<open>select('*')\<close> returns are
  those of the table, whose declaration is not part of the sources: they are a parameter.
\<close>

definition order_by_timestamp :: "row list \<Rightarrow> row list" where
  "order_by_timestamp rs = sort_key ts_of rs"

definition data_frame :: "string list \<Rightarrow> row list \<Rightarrow> frame" where
  "data_frame schema data = (if data = [] then empty_frame else \<lparr>columns = schema, rows = data\<rparr>)"

text \<open>
  \<open>fetch_latest_features\<close>: with no row the frame has no \<open>timestamp\<close> column, the
  conversion raises, and the handler returns the empty frame.
\<close>

definition fetch_latest_features :: "string list \<Rightarrow> row list \<Rightarrow> int \<Rightarrow> int \<Rightarrow> frame" where
  "fetch_latest_features schema features_store now days_back =
     (let start_date = now - timedelta_days days_back;
          data = order_by_timestamp
                   [r \<leftarrow> features_store. r ''symbol'' = Str service_symbol
                        \<and> r ''feature_version'' = Str ''v1'' \<and> start_date \<le> ts_of r]
      in if data = [] \<or> ''timestamp'' \<notin> set schema then empty_frame else data_frame schema data)"

text \<open>
  The scaler rejects a vector of the wrong width, and a value that is not a finite float or
  missing; \<open>None\<close> when it raises (also when it has not been fitted).
\<close>

definition scale_cell :: "cell \<Rightarrow> real \<Rightarrow> real \<Rightarrow> real option option" where
  "scale_cell c mu sd =
     (case c of
        Val (Num x) \<Rightarrow> Some (Some ((x - mu) / sd))
      | Val NaN \<Rightarrow> Some None
      | PyNone \<Rightarrow> Some None
      | _ \<Rightarrow> None)"

definition transform :: "standard_scaler option \<Rightarrow> cell list \<Rightarrow> real option list option" where
  "transform sc xs =
     (case sc of
        None \<Rightarrow> None
      | Some s \<Rightarrow>
          if length xs \<noteq> length (scaler_mean s) \<or> length xs \<noteq> length (scaler_scale s) then None
          else those (map (\<lambda>(c, mu, sd). scale_cell c mu sd) (zip xs (zip (scaler_mean s) (scaler_scale s)))))"

text \<open>
  The latest close of the symbol: the row with the greatest timestamp.  \<open>Inr None\<close> when
  the table has no row for the symbol, \<open>Inl ()\<close> when \<open>float\<close> raises on a null close.
\<close>

definition latest_rows :: "row list \<Rightarrow> row list" where
  "latest_rows market_data_raw =
     take 1 (rev (order_by_timestamp [r \<leftarrow> market_data_raw. r ''symbol'' = Str service_symbol]))"

definition fetch_current_price :: "row list \<Rightarrow> unit + fnum option" where
  "fetch_current_price market_data_raw =
     (case latest_rows market_data_raw of
        [] \<Rightarrow> Inr None
      | r # _ \<Rightarrow> (case r ''close'' of Val x \<Rightarrow> Inr (Some x) | _ \<Rightarrow> Inl ()))"

text \<open>
  The direction block of the loop.  \<open>if current_price\<close> is false for \<open>None\<close> and for
  \<open>0.0\<close>.  The thresholds \<open>current_price * 1.001\<close> and \<open>current_price * 0.999\<close> are
  products of doubles, rounded to the nearest double.  The prediction is a single-precision
  number; it is a double as it stands, and the comparison with the threshold is made on
  doubles, without further rounding.
\<close>

definition determine_direction :: "fnum option \<Rightarrow> real \<Rightarrow> string option \<times> real option" where
  "determine_direction current_price predicted =
     (case current_price of
        None \<Rightarrow> (None, None)
      | Some p \<Rightarrow>
          if p = Num 0 then (None, None)
          else if fgt (Num predicted) (fmul64 p (Num float_1_001)) then (Some ''UP'', Some 0.65)
          else if flt (Num predicted) (fmul64 p (Num float_0_999)) then (Some ''DOWN'', Some 0.65)
          else (Some ''NEUTRAL'', Some 0.5))"

record prediction = forecast_cols +
  symbol :: string
  prediction_timestamp :: int
  target_timestamp :: int
  confidence_level :: real
  model_name :: string
  model_version :: string
  feature_version :: string
  predicted_direction :: "string option"
  direction_probability :: "real option"

text \<open>
  One turn of the loop over the days; \<open>now\<close> is the clock read in this turn.  \<open>None\<close> when
  the turn raises: \<open>iloc[0]\<close> on an empty prediction frame, or \<open>float\<close> on a null close.
\<close>

definition forecast_day ::
  "advanced_model \<Rightarrow> row list \<Rightarrow> real option list \<Rightarrow> int \<Rightarrow> int \<Rightarrow> int \<Rightarrow> prediction option" where
  "forecast_day m market_data_raw latest_scaled current_date now day =
     (let target_date = current_date + timedelta_days day;
          pred_result = predict m [latest_scaled] 0.95
      in case pred_result of
           [] \<Rightarrow> None
         | res # _ \<Rightarrow>
             (case fetch_current_price market_data_raw of
                Inl _ \<Rightarrow> None
              | Inr current_price \<Rightarrow>
                  (case determine_direction current_price (predicted_price res) of
                     (direction, probability) \<Rightarrow>
                       Some \<lparr>predicted_price = predicted_price res,
                             confidence_lower = confidence_lower res,
                             confidence_upper = confidence_upper res,
                             symbol = service_symbol,
                             prediction_timestamp = now,
                             target_timestamp = target_date,
                             confidence_level = 0.95,
                             model_name = MODEL_NAME,
                             model_version = MODEL_VERSION,
                             feature_version = FEATURE_VERSION,
                             predicted_direction = direction,
                             direction_probability = probability\<rparr>)))"

text \<open>
  The loop: the records are collected in order; an exception in any turn is caught by the
  handler of \<open>generate_predictions\<close>, which returns the empty list.  \<open>clock k\<close> is the
  \<open>k\<close>-th reading of \<open>datetime.now()\<close> during the call.  The price table is queried
  anew in every turn, and other processes write to it: \<open>market_data_raw k\<close> is the table
  as the query of turn \<open>k\<close> finds it.
\<close>

fun forecast_loop ::
  "advanced_model \<Rightarrow> (nat \<Rightarrow> row list) \<Rightarrow> real option list \<Rightarrow> int \<Rightarrow> (nat \<Rightarrow> int) \<Rightarrow> int list
     \<Rightarrow> prediction list \<Rightarrow> prediction list option" where
  "forecast_loop m market_data_raw latest_scaled current_date clock [] predictions =
     Some predictions"
| "forecast_loop m market_data_raw latest_scaled current_date clock (day # days) predictions =
     (case forecast_day m (market_data_raw (nat day)) latest_scaled current_date
             (clock (nat (day + 1))) day of
        None \<Rightarrow> None
      | Some p \<Rightarrow>
          forecast_loop m market_data_raw latest_scaled current_date clock days
            (predictions @ [p]))"

definition generate_predictions ::
  "pandas_lib \<Rightarrow> advanced_model \<Rightarrow> string list \<Rightarrow> row list \<Rightarrow> (nat \<Rightarrow> row list)
     \<Rightarrow> (nat \<Rightarrow> int) \<Rightarrow> int \<Rightarrow> prediction list" where
  "generate_predictions lib m schema features_store market_data_raw clock forecast_days =
     (let df = fetch_latest_features schema features_store (clock 0) 100
      in if is_empty df then []
         else (case prepare_features lib df of
                 (df', feature_columns) \<Rightarrow>
                   if \<not> set feature_columns \<subseteq> set (columns df') then []
                   else (let latest_features = map (last (rows df')) feature_columns
                         in case transform (scaler m) latest_features of
                              None \<Rightarrow> []
                            | Some latest_scaled \<Rightarrow>
                                (let current_date = clock 1
                                 in case forecast_loop m market_data_raw latest_scaled current_date
                                           clock [1..forecast_days] [] of
                                      None \<Rightarrow> []
                                    | Some predictions \<Rightarrow> predictions))))"

section \<open>The model registry (\<open>save_metadata\<close> of both models)\<close>














section \<open>The feature engineer (\<open>services/feature_engineering/feature_engineer.py\<close>)\<close>

text \<open>
  \<open>fetch_market_data\<close>: the bars of a symbol since \<open>now - days_back\<close>, by ascending
  timestamp; the empty frame when there is none (and when the conversion of the
  \<open>timestamp\<close> column raises).
\<close>

definition fetch_market_data :: "string list \<Rightarrow> row list \<Rightarrow> int \<Rightarrow> string \<Rightarrow> int \<Rightarrow> frame" where
  "fetch_market_data schema market_data_raw now symb days_back =
     (let start_date = now - timedelta_days days_back;
          data = order_by_timestamp
                   [r \<leftarrow> market_data_raw. r ''symbol'' = Str symb \<and> start_date \<le> ts_of r]
      in if data = [] \<or> ''timestamp'' \<notin> set schema then empty_frame
         else \<lparr>columns = schema, rows = sort_key ts_of data\<rparr>)"

text \<open>
  Each \<open>calculate_\<close> function catches its exceptions and returns the frame as it is at
  that point.  In the model the only exception is a missing input column; the library
  routines do not raise.
\<close>

definition calculate_technical_indicators :: "ta_lib \<Rightarrow> frame \<Rightarrow> frame" where
  "calculate_technical_indicators ta df =
     (if ''close'' \<notin> set (columns df) then df
      else
        (let close = col ''close'' df;
             df = assign ''sma_5'' (sma_indicator ta close 5) df;
             df = assign ''sma_20'' (sma_indicator ta close 20) df;
             df = assign ''sma_50'' (sma_indicator ta close 50) df;
             df = assign ''ema_12'' (ema_indicator ta close 12) df;
             df = assign ''ema_26'' (ema_indicator ta close 26) df;
             df = assign ''rsi_14'' (rsi ta close 14) df;
             df = assign ''macd'' (macd ta close) df;
             df = assign ''macd_signal'' (macd_signal ta close) df;
             df = assign ''macd_histogram'' (macd_diff ta close) df;
             df = assign ''bollinger_upper'' (bollinger_hband ta close) df;
             df = assign ''bollinger_middle'' (bollinger_mavg ta close) df;
             df = assign ''bollinger_lower'' (bollinger_lband ta close) df
         in if ''high'' \<notin> set (columns df) \<or> ''low'' \<notin> set (columns df) then df
            else
              (let df = assign ''atr_14''
                          (average_true_range ta (col ''high'' df) (col ''low'' df) close 14) df
               in if ''volume'' \<notin> set (columns df) then df
                  else assign ''obv'' (on_balance_volume ta close (col ''volume'' df)) df)))"

definition calculate_price_features :: "pandas_lib \<Rightarrow> frame \<Rightarrow> frame" where
  "calculate_price_features lib df =
     (if ''close'' \<notin> set (columns df) then df
      else
        (let close = col ''close'' df;
             df = assign ''returns_1d'' (pct_change lib 1 close) df;
             df = assign ''returns_5d'' (pct_change lib 5 close) df;
             df = assign ''returns_20d'' (pct_change lib 20 close) df
         in assign ''volatility_20d'' (rolling_std lib 20 (col ''returns_1d'' df)) df))"

text \<open>The quotient of two columns, position by position.\<close>

definition divide_columns :: "cell list \<Rightarrow> cell list \<Rightarrow> cell list" where
  "divide_columns xs ys = map (\<lambda>(x, y). Val (fdiv (num x) (num y))) (zip xs ys)"

definition calculate_volume_features :: "pandas_lib \<Rightarrow> frame \<Rightarrow> frame" where
  "calculate_volume_features lib df =
     (if ''volume'' \<notin> set (columns df) then df
      else
        (let df = assign ''volume_sma_20'' (rolling_mean lib 20 (col ''volume'' df)) df
         in assign ''volume_ratio'' (divide_columns (col ''volume'' df) (col ''volume_sma_20'' df)) df))"

text \<open>
  \<open>left.merge(right[['timestamp', 'close']], on='timestamp', how='left')\<close>, the close of
  the right frame arriving under the name \<open>c\<close>: every left row is kept, in order, once
  for each right row with the same timestamp, and once with \<open>NaN\<close> when there is none.
\<close>

definition merge_left :: "string \<Rightarrow> row list \<Rightarrow> row list \<Rightarrow> row list" where
  "merge_left c left right =
     concat (map (\<lambda>l. case [r \<leftarrow> right. r ''timestamp'' = l ''timestamp''] of
                         [] \<Rightarrow> [l(c := Val NaN)]
                       | ms \<Rightarrow> map (\<lambda>r. l(c := r ''close'')) ms) left)"

definition merge_close :: "string \<Rightarrow> frame \<Rightarrow> frame \<Rightarrow> frame" where
  "merge_close c left right =
     \<lparr>columns = columns left @ [c], rows = merge_left c (rows left) (rows right)\<rparr>"

definition has_timestamp_close :: "frame \<Rightarrow> bool" where
  "has_timestamp_close df = (''timestamp'' \<in> set (columns df) \<and> ''close'' \<in> set (columns df))"

definition calculate_sector_features ::
  "pandas_lib \<Rightarrow> frame \<Rightarrow> frame \<Rightarrow> frame list \<Rightarrow> frame" where
  "calculate_sector_features lib df_primary df_index df_peers =
     (if \<not> has_timestamp_close df_primary \<or> \<not> has_timestamp_close df_index
         \<or> ''returns_1d'' \<notin> set (columns df_primary)
         \<or> ''close_index'' \<in> set (columns df_primary)
         \<or> ''close_peer'' \<in> set (columns df_primary)
         \<or> \<not> list_all has_timestamp_close df_peers
      then df_primary
      else
        (let merged = merge_close ''close_index'' df_primary df_index;
             merged = assign ''correlation_nifty_bank''
                        (rolling_corr lib 20 (col ''returns_1d'' merged)
                           (pct_change lib 1 (col ''close_index'' merged))) merged;
             merged = assign ''relative_strength_sector''
                        (divide_columns (col ''close'' merged) (col ''close_index'' merged)) merged
         in if df_peers = [] then merged
            else
              (let peer_returns =
                     map (\<lambda>peer_df. pct_change lib 1
                            (col ''close_peer'' (merge_close ''close_peer'' merged peer_df)))
                       df_peers;
                   avg_peer_returns = mean_axis1 lib peer_returns
               in assign ''correlation_banking_peers''
                    (rolling_corr lib 20 (col ''returns_1d'' merged) avg_peer_returns) merged)))"

text \<open>\<open>np.select\<close>: at each position the choice of the first condition that holds.\<close>

definition np_select :: "bool list list \<Rightarrow> string list \<Rightarrow> string \<Rightarrow> nat \<Rightarrow> string list" where
  "np_select conditions choices dflt n =
     map (\<lambda>i. case [ch \<leftarrow> zip conditions choices. i < length (fst ch) \<and> fst ch ! i] of
                 [] \<Rightarrow> dflt
               | ch # _ \<Rightarrow> snd ch) [0..<n]"

definition trend_up_row :: "row \<Rightarrow> bool" where
  "trend_up_row r =
     (fgt (num (r ''sma_5'')) (num (r ''sma_20'')) \<and> fgt (num (r ''sma_20'')) (num (r ''sma_50'')))"

definition trend_down_row :: "row \<Rightarrow> bool" where
  "trend_down_row r =
     (flt (num (r ''sma_5'')) (num (r ''sma_20'')) \<and> flt (num (r ''sma_20'')) (num (r ''sma_50'')))"

definition trend_strength_row :: "row \<Rightarrow> fnum" where
  "trend_strength_row r =
     fdiv (fabs (fsub (num (r ''sma_5'')) (num (r ''sma_50'')))) (num (r ''sma_50''))"

definition classify_regime :: "pandas_lib \<Rightarrow> frame \<Rightarrow> frame" where
  "classify_regime lib df =
     (if \<not> {''sma_5'', ''sma_20'', ''sma_50''} \<subseteq> set (columns df) then df
      else
        (let trend_up = map trend_up_row (rows df);
             trend_down = map trend_down_row (rows df);
             trend_strength = map trend_strength_row (rows df);
             df = assign ''trend_up'' (map Bool trend_up) df;
             df = assign ''trend_down'' (map Bool trend_down) df;
             df = assign ''trend_strength'' (map Val trend_strength) df
         in if ''volatility_20d'' \<notin> set (columns df) then df
            else
              (let strong = map (\<lambda>s. fgt s (Num 0.02)) trend_strength;
                   volatility = col ''volatility_20d'' df;
                   threshold = rolling_mean lib 50 volatility;
                   conditions =
                     [map (\<lambda>(t, s). t \<and> s) (zip trend_up strong),
                      map (\<lambda>(t, s). t \<and> s) (zip trend_down strong),
                      map (\<lambda>(v, m). fgt (num v) (fmul (num m) (Num 1.5))) (zip volatility threshold)];
                   choices = [''trending_up'', ''trending_down'', ''high_volatility'']
               in assign ''regime_classification''
                    (map Str (np_select conditions choices ''ranging'' (length (rows df)))) df)))"

definition storage_columns :: "string list" where
  "storage_columns =
     [''symbol'', ''timestamp'', ''feature_version'',
      ''sma_5'', ''sma_20'', ''sma_50'', ''ema_12'', ''ema_26'',
      ''rsi_14'', ''macd'', ''macd_signal'', ''macd_histogram'',
      ''bollinger_upper'', ''bollinger_middle'', ''bollinger_lower'',
      ''atr_14'', ''obv'',
      ''returns_1d'', ''returns_5d'', ''returns_20d'', ''volatility_20d'',
      ''volume_sma_20'', ''volume_ratio'',
      ''correlation_nifty_bank'', ''correlation_banking_peers'', ''relative_strength_sector'',
      ''regime_classification'', ''trend_strength'']"

type_synonym record_dict = "(string \<times> cell) list"

text \<open>
  \<open>prepare_features_for_storage\<close>: one dictionary per row of the frame, over the columns
  of the list that the frame has; \<open>replace({np.nan: None})\<close> turns a \<open>NaN\<close> into \<open>None\<close>.
\<close>

definition prepare_features_for_storage :: "frame \<Rightarrow> string \<Rightarrow> record_dict list" where
  "prepare_features_for_storage df symb =
     (let df = assign_scalar ''symbol'' (Str symb) df;
          df = assign_scalar ''feature_version'' (Str FEATURE_VERSION) df;
          available_columns = [c \<leftarrow> storage_columns. c \<in> set (columns df)]
      in map (\<lambda>r. map (\<lambda>c. (c, if r c = Val NaN then PyNone else r c)) available_columns)
           (rows df))"

text \<open>
  \<open>store_features\<close>.  The records are sanitised first: a missing value becomes \<open>None\<close>, a
  timestamp is printed to the second, the two BIGINT columns are converted with \<open>int\<close>
  (which truncates towards zero, and raises on an infinity or on a string).  Then they are
  upserted in batches on the key (symbol, timestamp, feature_version).  The store accepts
  every write; an exception of the sanitising step makes the function return \<open>False\<close>
  before anything is written.
\<close>

definition py_int :: "real \<Rightarrow> int" where
  "py_int x = (if 0 \<le> x then \<lfloor>x\<rfloor> else \<lceil>x\<rceil>)"

definition sanitize_value :: "string \<Rightarrow> cell \<Rightarrow> cell option" where
  "sanitize_value key v =
     (if isna v then Some PyNone
      else case v of
             Ts t \<Rightarrow> Some (Ts (t div 1000000 * 1000000))
           | Val (Num x) \<Rightarrow>
               if key \<in> {''obv'', ''volume_sma_20''} then Some (Val (Num (of_int (py_int x))))
               else Some v
           | Bool b \<Rightarrow>
               if key \<in> {''obv'', ''volume_sma_20''} then Some (Val (Num (if b then 1 else 0)))
               else Some v
           | _ \<Rightarrow> if key \<in> {''obv'', ''volume_sma_20''} then None else Some v)"

definition sanitize_record :: "record_dict \<Rightarrow> record_dict option" where
  "sanitize_record rec =
     those (map (\<lambda>(k, v). map_option (\<lambda>v'. (k, v')) (sanitize_value k v)) rec)"

definition feature_key :: "row \<Rightarrow> cell \<times> cell \<times> cell" where
  "feature_key r = (r ''symbol'', r ''timestamp'', r ''feature_version'')"

definition row_of :: "record_dict \<Rightarrow> row \<Rightarrow> row" where
  "row_of rec old = (\<lambda>k. case map_of rec k of None \<Rightarrow> old k | Some v \<Rightarrow> v)"

definition upsert_feature :: "row list \<Rightarrow> record_dict \<Rightarrow> row list" where
  "upsert_feature store rec =
     (let new = row_of rec (\<lambda>_. PyNone)
      in if list_ex (\<lambda>r. feature_key r = feature_key new) store
         then map (\<lambda>r. if feature_key r = feature_key new then row_of rec r else r) store
         else store @ [new])"

fun batches :: "nat \<Rightarrow> 'a list \<Rightarrow> 'a list list" where
  "batches fuel [] = []"
| "batches 0 xs = [xs]"
| "batches (Suc n) xs = take (Suc n) xs # batches (Suc n) (drop (Suc n) xs)"

record store_result =
  success :: bool
  store :: "row list"
  errors :: "string list"

definition store_features :: "row list \<Rightarrow> record_dict list \<Rightarrow> nat \<Rightarrow> store_result" where
  "store_features features_store records batch_size =
     (case those (map sanitize_record records) of
        None \<Rightarrow> \<lparr>success = False, store = features_store, errors = [''Error storing features'']\<rparr>
      | Some sanitized_records \<Rightarrow>
          \<lparr>success = True,
           store = foldl (\<lambda>s batch. foldl upsert_feature s batch) features_store
                     (batches batch_size sanitized_records),
           errors = []\<rparr>)"

definition peers :: "string list" where
  "peers = [''ICICIBANK.NS'', ''KOTAKBANK.NS'', ''AXISBANK.NS'']"

text \<open>
  The frame that \<open>engineer_features\<close> computes from a non-empty primary frame, before it
  is stored.
\<close>

definition feature_frame ::
  "ta_lib \<Rightarrow> pandas_lib \<Rightarrow> frame \<Rightarrow> frame \<Rightarrow> frame list \<Rightarrow> frame" where
  "feature_frame ta lib df_primary df_index df_peers =
     (let df_primary = calculate_technical_indicators ta df_primary;
          df_primary = calculate_price_features lib df_primary;
          df_primary = calculate_volume_features lib df_primary;
          df_primary = (if \<not> is_empty df_index
                        then calculate_sector_features lib df_primary df_index df_peers
                        else df_primary)
      in classify_regime lib df_primary)"

text \<open>
  \<open>engineer_features\<close>: the result is the returned flag, the feature store after the
  call and the error messages logged.  \<open>clock k\<close> is the \<open>k\<close>-th reading of the clock,
  one for each fetch.
\<close>

definition engineer_features ::
  "ta_lib \<Rightarrow> pandas_lib \<Rightarrow> string list \<Rightarrow> row list \<Rightarrow> row list \<Rightarrow> (nat \<Rightarrow> int) \<Rightarrow> string \<Rightarrow> int
     \<Rightarrow> store_result" where
  "engineer_features ta lib schema market_data_raw features_store clock symb days_back =
     (let df_primary = fetch_market_data schema market_data_raw (clock 0) symb days_back
      in if is_empty df_primary
         then \<lparr>success = False, store = features_store,
               errors = [''No data available for '' @ symb]\<rparr>
         else
           (let df_index = fetch_market_data schema market_data_raw (clock 1) ''^NSEBANK'' days_back;
                peer_frames =
                  map (\<lambda>(k, peer). fetch_market_data schema market_data_raw (clock k) peer days_back)
                    (enumerate 2 peers);
                df_peers = [peer_df \<leftarrow> peer_frames. \<not> is_empty peer_df];
                df_primary = feature_frame ta lib df_primary df_index df_peers;
                records = prepare_features_for_storage df_primary symb
            in store_features features_store records 1000))"

section \<open>The dataset constructor (\<open>AdvancedXGBoostModel.create_sequences\<close>)\<close>

datatype py_error = KeyError string | ValueError string

text \<open>The messages that \<open>create_sequences\<close> logs as errors; the bounds of an empty column are undefined.\<close>

datatype log_entry =
  Merge_failed
  | Feature_date_range "int option" "int option"
  | Price_date_range "int option" "int option"

text \<open>
  The prices are read in pages of 1000 rows until a page is empty or short.  \<open>data\<close> is
  the result of the query without the range: the bars of HDFCBANK.NS by ascending
  timestamp.
\<close>

function fetch_all_prices :: "row list \<Rightarrow> nat \<Rightarrow> row list \<Rightarrow> row list" where
  "fetch_all_prices data range_start all_prices =
     (let page = take 1000 (drop range_start data)
      in if page = [] then all_prices
         else if length page < 1000 then all_prices @ page
         else fetch_all_prices data (range_start + 1000) (all_prices @ page))"
  by pat_completeness auto
termination
  by (relation "measure (\<lambda>(data, range_start, all_prices). length data - range_start)") auto

definition with_date_str :: "frame \<Rightarrow> frame" where
  "with_date_str df = assign ''date_str'' (map (\<lambda>r. Date (date_str (ts_of r))) (rows df)) df"

definition date_of :: "row \<Rightarrow> int" where
  "date_of r = (case r ''date_str'' of Date d \<Rightarrow> d | _ \<Rightarrow> 0)"

text \<open>
  \<open>df.merge(price_df[['date_str', 'close']], on='date_str', how='inner')\<close>: a row for
  every pair of a feature row and a price row of the same date, in the order of the
  feature rows.
\<close>

definition merge_inner :: "row list \<Rightarrow> row list \<Rightarrow> row list" where
  "merge_inner left right =
     concat (map (\<lambda>l. map (\<lambda>p. l(''close'' := p ''close''))
                         [p \<leftarrow> right. p ''date_str'' = l ''date_str'']) left)"

definition series_min :: "int list \<Rightarrow> int option" where
  "series_min ds = (case ds of [] \<Rightarrow> None | d # r \<Rightarrow> Some (fold min r d))"

definition series_max :: "int list \<Rightarrow> int option" where
  "series_max ds = (case ds of [] \<Rightarrow> None | d # r \<Rightarrow> Some (fold max r d))"

text \<open>The joined series, sorted by date (\<open>sort_values('date_str')\<close>; rows of one date keep their order).\<close>

definition joined :: "frame \<Rightarrow> row list \<Rightarrow> row list" where
  "joined df all_prices =
     sort_key date_of
       (merge_inner (rows (with_date_str df))
          (rows (with_date_str \<lparr>columns = [''timestamp'', ''close''], rows = all_prices\<rparr>)))"

text \<open>
  \<open>create_sequences\<close> returns the feature matrix, the targets and the timestamps, or
  raises; the first component is what it has logged as errors.  \<open>feature_columns\<close> is
  the list left in the model by \<open>prepare_features\<close>.
\<close>

definition create_sequences ::
  "string list \<Rightarrow> frame \<Rightarrow> row list \<Rightarrow> int
     \<Rightarrow> log_entry list \<times> (py_error + cell list list \<times> cell list \<times> cell list)" where
  "create_sequences feature_columns df market_data_raw forecast_horizon =
     (let all_prices = fetch_all_prices
            (order_by_timestamp [r \<leftarrow> market_data_raw. r ''symbol'' = Str ''HDFCBANK.NS'']) 0 []
      in if all_prices = [] then ([], Inl (KeyError ''timestamp''))
         else if ''timestamp'' \<notin> set (columns df) then ([], Inl (KeyError ''timestamp''))
         else
           (let price_df = with_date_str \<lparr>columns = [''timestamp'', ''close''], rows = all_prices\<rparr>;
                df = with_date_str df
            in if merge_inner (rows df) (rows price_df) = []
               then ([Merge_failed,
                      Feature_date_range (series_min (map date_of (rows df)))
                        (series_max (map date_of (rows df))),
                      Price_date_range (series_min (map date_of (rows price_df)))
                        (series_max (map date_of (rows price_df)))],
                     Inl (ValueError ''No matching dates between features and prices''))
               else if ''close'' \<in> set (columns df) then ([], Inl (KeyError ''close''))
               else
                 (let merged = \<lparr>columns = columns df @ [''close''],
                                rows = sort_key date_of (merge_inner (rows df) (rows price_df))\<rparr>;
                      merged = assign ''target''
                                 (shift (- forecast_horizon) (col ''close'' merged)) merged
                  in if \<not> set feature_columns \<subseteq> set (columns merged)
                     then ([], Inl (KeyError
                             (hd [c \<leftarrow> feature_columns. c \<notin> set (columns merged)])))
                     else
                       (let kept = [r \<leftarrow> rows merged.
                                      \<forall>c \<in> set (feature_columns @ [''target'']). \<not> isna (r c)]
                        in ([], Inr (map (\<lambda>r. map r feature_columns) kept,
                                     map (\<lambda>r. r ''target'') kept,
                                     map (\<lambda>r. r ''timestamp'') kept))))))"

section \<open>Example data\<close>

text \<open>
  A one-row feature store, a one-row price table, a fitted model that always predicts
  1503 and library routines that return undefined columns.
\<close>

definition example_lib :: pandas_lib where
  "example_lib = \<lparr>rolling_mean = (\<lambda>w xs. map (\<lambda>_. Val NaN) xs),
                  rolling_std = (\<lambda>w xs. map (\<lambda>_. Val NaN) xs),
                  rolling_corr = (\<lambda>w xs ys. map (\<lambda>_. Val NaN) xs),
                  pct_change = (\<lambda>k xs. map (\<lambda>_. Val NaN) xs),
                  mean_axis1 = (\<lambda>xss. [])\<rparr>"

definition example_feature_row :: row where
  "example_feature_row =
     (\<lambda>_. Val (Num 0))(''symbol'' := Str ''HDFCBANK.NS'', ''feature_version'' := Str ''v1'',
        ''timestamp'' := Ts 0, ''regime_classification'' := Str ''ranging'')"

definition example_schema :: "string list" where
  "example_schema =
     ''symbol'' # ''timestamp'' # ''feature_version'' # ''regime_classification''
       # base_feature_columns"

definition price_row :: "int \<Rightarrow> real \<Rightarrow> row" where
  "price_row t c =
     (\<lambda>_. PyNone)(''symbol'' := Str ''HDFCBANK.NS'', ''timestamp'' := Ts t, ''close'' := Val (Num c))"

definition example_market :: "row list" where
  "example_market = [price_row 0 1500]"

definition example_model :: advanced_model where
  "example_model = \<lparr>model = Some (\<lambda>_. 1503),
      scaler = Some \<lparr>scaler_mean = replicate 36 0, scaler_scale = replicate 36 1\<rparr>\<rparr>"

definition example_clock :: "nat \<Rightarrow> int" where
  "example_clock k = int k"

text \<open>
  The price table of each turn: the same bar in every turn, and a table that receives a
  later bar with the close 1510 before the second turn.
\<close>

definition steady_market :: "nat \<Rightarrow> row list" where
  "steady_market k = example_market"

definition changing_market :: "nat \<Rightarrow> row list" where
  "changing_market k = (if k \<le> 1 then example_market else price_row 1 1510 # example_market)"

text \<open>A fitted model that returns the first feature, to predict different prices on a batch.\<close>

definition first_feature_model :: advanced_model where
  "first_feature_model =
     \<lparr>model = Some (\<lambda>xs. case xs of Some x # _ \<Rightarrow> x | _ \<Rightarrow> 0), scaler = None\<rparr>"

text \<open>Indicator routines that return undefined columns, as on a series shorter than every window.\<close>

definition example_ta :: ta_lib where
  "example_ta =
     \<lparr>sma_indicator = (\<lambda>xs w. map (\<lambda>_. Val NaN) xs),
      ema_indicator = (\<lambda>xs w. map (\<lambda>_. Val NaN) xs),
      rsi = (\<lambda>xs w. map (\<lambda>_. Val NaN) xs),
      macd = map (\<lambda>_. Val NaN),
      macd_signal = map (\<lambda>_. Val NaN),
      macd_diff = map (\<lambda>_. Val NaN),
      bollinger_hband = map (\<lambda>_. Val NaN),
      bollinger_mavg = map (\<lambda>_. Val NaN),
      bollinger_lband = map (\<lambda>_. Val NaN),
      average_true_range = (\<lambda>h l c w. map (\<lambda>_. Val NaN) c),
      on_balance_volume = (\<lambda>c v. v)\<rparr>"

text \<open>
  Indicator routines whose on-balance volume is infinite, which \<open>int\<close> does not convert, and
  the columns of a price table.
\<close>

definition overflow_ta :: ta_lib where
  "overflow_ta = example_ta\<lparr>on_balance_volume := (\<lambda>c v. map (\<lambda>_. Val PInf) c)\<rparr>"

definition bar_schema :: "string list" where
  "bar_schema = [''symbol'', ''timestamp'', ''close'', ''high'', ''low'', ''volume'']"

text \<open>A frame with one row of the warm-up period: the 50-day average is undefined.\<close>

definition warmup_frame :: frame where
  "warmup_frame =
     \<lparr>columns = [''timestamp'', ''close'', ''sma_50''],
      rows = [(\<lambda>_. PyNone)(''timestamp'' := Ts 0, ''close'' := Val (Num 100),
                ''sma_50'' := Val NaN)]\<rparr>"

text \<open>A primary frame with one bar, and an index frame whose only bar is one day later.\<close>

definition primary_frame :: frame where
  "primary_frame =
     \<lparr>columns = [''timestamp'', ''close'', ''returns_1d''],
      rows = [(\<lambda>_. PyNone)(''timestamp'' := Ts 0, ''close'' := Val (Num 1500),
                ''returns_1d'' := Val NaN)]\<rparr>"

definition index_frame :: frame where
  "index_frame =
     \<lparr>columns = [''timestamp'', ''close''],
      rows = [(\<lambda>_. PyNone)(''timestamp'' := Ts 86400000000, ''close'' := Val (Num 45000))]\<rparr>"

text \<open>A frame with one row in an upward trend: the averages are ordered and 10% apart.\<close>

definition trend_frame :: frame where
  "trend_frame =
     \<lparr>columns = [''timestamp'', ''sma_5'', ''sma_20'', ''sma_50'', ''volatility_20d''],
      rows = [(\<lambda>_. PyNone)(''timestamp'' := Ts 0, ''sma_5'' := Val (Num 110),
                ''sma_20'' := Val (Num 105), ''sma_50'' := Val (Num 100),
                ''volatility_20d'' := Val (Num 0.01))]\<rparr>"

text \<open>
  Two feature rows of day 0, one hour apart, with the feature \<open>rsi_14\<close>; one feature row
  per day for the days 0, 1 and 2.
\<close>

definition feature_at :: "int \<Rightarrow> row" where
  "feature_at t = (\<lambda>_. PyNone)(''timestamp'' := Ts t, ''rsi_14'' := Val (Num 50))"

definition same_day_frame :: frame where
  "same_day_frame =
     \<lparr>columns = [''timestamp'', ''rsi_14''], rows = [feature_at 0, feature_at 3600000000]\<rparr>"

definition three_day_frame :: frame where
  "three_day_frame =
     \<lparr>columns = [''timestamp'', ''rsi_14''],
      rows = [feature_at 0, feature_at 86400000000, feature_at 172800000000]\<rparr>"

definition three_day_prices :: "row list" where
  "three_day_prices = [price_row 0 100, price_row 86400000000 101, price_row 172800000000 102]"

section \<open>Properties of the prediction service\<close>

subsection \<open>Rounded products\<close>

lemma floor_log2:
  assumes "2 ^ k \<le> x" and "x < 2 ^ Suc k"
  shows "\<lfloor>log 2 x\<rfloor> = int k"
proof -
  have "(0::real) < 2 ^ k" by simp
  with assms(1) have pos: "0 < x" by linarith
  have "real k \<le> log 2 x"
    using assms(1) pos by (simp add: le_log_iff powr_realpow)
  moreover have "log 2 x < real k + 1"
    using assms(2) pos by (simp add: log_less_iff powr_realpow powr_add)
  ultimately show ?thesis by (simp add: floor_eq_iff)
qed

lemma powr_52:
  assumes "k \<le> 52"
  shows "(2::real) powr (of_int (int k) - 52) = 1 / 2 ^ (52 - k)"
proof -
  have "of_int (int k) - (52::real) = - real (52 - k)" using assms by simp
  then have "(2::real) powr (of_int (int k) - 52) = 2 powr (- real (52 - k))" by (rule arg_cong)
  also have "\<dots> = 1 / 2 ^ (52 - k)" by (simp add: powr_minus powr_realpow divide_simps)
  finally show ?thesis .
qed

lemma float64_unfold:
  assumes "x \<noteq> 0" and "max \<lfloor>log 2 \<bar>x\<bar>\<rfloor> (- 1022) = e" and "(2::real) powr (of_int e - 52) = 1 / d"
    and "r = real_of_int (round_even (x * d)) / d" and "\<not> 2 ^ 1024 \<le> \<bar>r\<bar>"
  shows "float64 x = Num r"
  unfolding float64_def Let_def assms(2) assms(3) using assms(1,4,5) by simp

text \<open>The rounding of a number between \<open>2 ^ k\<close> and \<open>2 ^ (k + 1)\<close>: a multiple of \<open>2 ^ (k - 52)\<close>.\<close>

lemma float64_normal:
  assumes "2 ^ k \<le> \<bar>x\<bar>" and "\<bar>x\<bar> < 2 ^ Suc k" and "k \<le> 52"
    and "r = real_of_int (round_even (x * 2 ^ (52 - k))) / 2 ^ (52 - k)"
    and "\<bar>r\<bar> < 2 ^ 1024"
  shows "float64 x = Num r"
proof (rule float64_unfold [OF _ _ powr_52 [OF assms(3)] assms(4)])
  have "(0::real) < 2 ^ k" by (rule zero_less_power) (rule zero_less_numeral)
  then have "0 < \<bar>x\<bar>" using assms(1) by (rule less_le_trans)
  then show "x \<noteq> 0" by (rule zero_less_abs_iff [THEN iffD1])
  from floor_log2 [OF assms(1,2)] have "\<lfloor>log 2 \<bar>x\<bar>\<rfloor> = int k" .
  moreover have "max (int k) (- 1022) = int k" by (rule max_absorb1) (rule order_trans [of _ 0], rule neg_numeral_le_zero, rule of_nat_0_le_iff)
  ultimately show "max \<lfloor>log 2 \<bar>x\<bar>\<rfloor> (- 1022) = int k" by (rule ssubst)
  from assms(5) show "\<not> 2 ^ 1024 \<le> \<bar>r\<bar>" by (rule less_le_not_le [THEN iffD1, THEN conjunct2])
qed

text \<open>
  The thresholds for a close of 1500.  The upper one is below 1501.5, the exact product
  of 1500 and the decimal 1.001.
\<close>

lemma threshold_up_1500: "float64 (1500 * float_1_001) = Num (6603666836422655 / 2 ^ 42)"
  by (rule float64_normal [where k = 10]) (simp_all add: float_1_001_def round_even_def)

lemma threshold_down_1500: "float64 (1500 * float_0_999) = Num 1498.5"
  by (rule float64_normal [where k = 10]) (simp_all add: float_0_999_def round_even_def)

lemma threshold_up_1510: "float64 (1510 * float_1_001) = Num (6647691281998806 / 2 ^ 42)"
  by (rule float64_normal [where k = 10]) (simp_all add: float_1_001_def round_even_def)

lemma threshold_down_1510: "float64 (1510 * float_0_999) = Num (6634409181535273 / 2 ^ 42)"
  by (rule float64_normal [where k = 10]) (simp_all add: float_0_999_def round_even_def)

lemma fmul64_Num: "fmul64 (Num p) (Num c) = float64 (p * c)"
  by (simp add: fmul64_def)

subsection \<open>One forecast record\<close>

lemma np_std_single: "np_std [x] = 0"
  by (simp add: np_std_def)

text \<open>On the one-row batch of the service the interval collapses to the point prediction.\<close>

lemma predict_single:
  "predict m [v] cl = (case model m of None \<Rightarrow> []
     | Some f \<Rightarrow> [\<lparr>predicted_price = f v, confidence_lower = f v, confidence_upper = f v\<rparr>])"
  by (simp add: predict_def np_std_single split: option.splits)

lemma forecast_day_Some:
  assumes "forecast_day m market ls cd now day = Some r"
  shows "\<exists>f cp. model m = Some f \<and> fetch_current_price market = Inr cp \<and>
     r = \<lparr>predicted_price = f ls, confidence_lower = f ls, confidence_upper = f ls,
          symbol = service_symbol, prediction_timestamp = now,
          target_timestamp = cd + timedelta_days day, confidence_level = 0.95,
          model_name = MODEL_NAME, model_version = MODEL_VERSION,
          feature_version = FEATURE_VERSION,
          predicted_direction = fst (determine_direction cp (f ls)),
          direction_probability = snd (determine_direction cp (f ls))\<rparr>"
  using assms
  by (auto simp: forecast_day_def predict_single Let_def split: option.splits sum.splits prod.splits)

lemma forecast_day_eval:
  assumes "model m = Some f" and "fetch_current_price market = Inr cp"
  shows "forecast_day m market ls cd now day =
     Some \<lparr>predicted_price = f ls, confidence_lower = f ls, confidence_upper = f ls,
          symbol = service_symbol, prediction_timestamp = now,
          target_timestamp = cd + timedelta_days day, confidence_level = 0.95,
          model_name = MODEL_NAME, model_version = MODEL_VERSION,
          feature_version = FEATURE_VERSION,
          predicted_direction = fst (determine_direction cp (f ls)),
          direction_probability = snd (determine_direction cp (f ls))\<rparr>"
  using assms
  by (simp add: forecast_day_def predict_single Let_def split: prod.splits)

text \<open>Two turns of the loop, each with its own reading of the clock and of the price table.\<close>

lemma forecast_day_same:
  assumes "forecast_day m market ls cd now day = Some r"
    and "forecast_day m market' ls cd now' day' = Some r'"
  shows "r' = r\<lparr>prediction_timestamp := now', target_timestamp := cd + timedelta_days day',
                  predicted_direction := predicted_direction r',
                  direction_probability := direction_probability r'\<rparr>"
  using forecast_day_Some [OF assms(1)] forecast_day_Some [OF assms(2)]
  by auto

lemma forecast_day_direction:
  assumes "forecast_day m market latest_scaled current_date now day = Some r"
    and "fetch_current_price market = Inr cp"
  shows "(predicted_direction r, direction_probability r) = determine_direction cp (predicted_price r)"
  using forecast_day_Some [OF assms(1)] assms(2) by auto

lemma fetch_current_price_single:
  "fetch_current_price [price_row t c] = Inr (Some (Num c))"
  by (simp add: fetch_current_price_def latest_rows_def price_row_def service_symbol_def
      order_by_timestamp_def)

lemma fetch_current_price_Nil: "fetch_current_price [] = Inr None"
  by (simp add: fetch_current_price_def latest_rows_def order_by_timestamp_def)

lemma example_model_model: "model example_model = Some (\<lambda>_. 1503)"
  by (simp add: example_model_def)

subsection \<open>Direction and its probability\<close>

lemma determine_direction_nonzero:
  "p \<noteq> 0 \<Longrightarrow> determine_direction (Some (Num p)) x =
     (if fgt (Num x) (float64 (p * float_1_001)) then (Some ''UP'', Some 0.65)
      else if flt (Num x) (float64 (p * float_0_999)) then (Some ''DOWN'', Some 0.65)
      else (Some ''NEUTRAL'', Some 0.5))"
  by (simp add: determine_direction_def fmul64_Num)

lemma determine_direction_missing:
  "determine_direction None x = (None, None)"
  "determine_direction (Some (Num 0)) x = (None, None)"
  by (simp_all add: determine_direction_def)

lemma direction_1500_1503: "determine_direction (Some (Num 1500)) 1503 = (Some ''UP'', Some 0.65)"
  by (simp add: determine_direction_nonzero threshold_up_1500)

lemma direction_1510_1503: "determine_direction (Some (Num 1510)) 1503 = (Some ''DOWN'', Some 0.65)"
  by (simp add: determine_direction_nonzero threshold_up_1510 threshold_down_1510 flt_def)

text \<open>
  At the edge of the band the rounding decides: 1501.5 is the exact product of 1500 and
  1.001, and it is above the rounded threshold.
\<close>

lemma direction_1500_edge: "determine_direction (Some (Num 1500)) 1501.5 = (Some ''UP'', Some 0.65)"
  by (simp add: determine_direction_nonzero threshold_up_1500)

text \<open>
  C7 (as amended).  A forecast record takes its direction from the latest close that the
  turn reads.  When there is no close, or the close is 0.0, the record has no direction
  and no probability.  For any other close \<open>p\<close> the direction is UP with probability 0.65
  if the prediction is above the double nearest to \<open>p * 1.001\<close>, DOWN with probability
  0.65 if it is below the double nearest to \<open>p * 0.999\<close>, and NEUTRAL with probability 0.5
  otherwise; 1.001 and 0.999 are themselves the doubles of the source.
\<close>

theorem direction_dead_band:
  assumes "forecast_day m market latest_scaled current_date now day = Some r"
    and "fetch_current_price market = Inr cp"
  shows "(cp = None \<or> cp = Some (Num 0) \<longrightarrow>
            predicted_direction r = None \<and> direction_probability r = None)
     \<and> (\<forall>p. cp = Some (Num p) \<and> p \<noteq> 0 \<longrightarrow>
            (predicted_direction r, direction_probability r) =
              (if fgt (Num (predicted_price r)) (float64 (p * float_1_001))
               then (Some ''UP'', Some 0.65)
               else if flt (Num (predicted_price r)) (float64 (p * float_0_999))
               then (Some ''DOWN'', Some 0.65)
               else (Some ''NEUTRAL'', Some 0.5)))"
proof -
  note d = forecast_day_direction [OF assms]
  have "predicted_direction r = None \<and> direction_probability r = None"
    if "cp = None \<or> cp = Some (Num 0)"
    using that d determine_direction_missing [of "predicted_price r"] by auto
  moreover have "(predicted_direction r, direction_probability r) =
              (if fgt (Num (predicted_price r)) (float64 (p * float_1_001))
               then (Some ''UP'', Some 0.65)
               else if flt (Num (predicted_price r)) (float64 (p * float_0_999))
               then (Some ''DOWN'', Some 0.65)
               else (Some ''NEUTRAL'', Some 0.5))"
    if "cp = Some (Num p) \<and> p \<noteq> 0" for p
    using that d determine_direction_nonzero [of p "predicted_price r"] by simp
  ultimately show ?thesis by blast
qed

text \<open>The example of the specification: close 1500.00, prediction 1503.00.\<close>

theorem direction_dead_band_witness:
  "\<exists>r. forecast_day example_model example_market [] 0 7 1 = Some r
       \<and> predicted_price r = 1503
       \<and> (predicted_direction r, direction_probability r) = (Some ''UP'', Some 0.65)"
proof -
  have price: "fetch_current_price example_market = Inr (Some (Num 1500))"
    unfolding example_market_def by (rule fetch_current_price_single)
  from forecast_day_eval [OF example_model_model price, of "[]" 0 7 1]
  obtain r where r: "forecast_day example_model example_market [] 0 7 1 = Some r"
    and p: "predicted_price r = 1503"
    by simp
  from direction_dead_band [OF r price]
  have "(predicted_direction r, direction_probability r) =
      (if fgt (Num (predicted_price r)) (float64 (1500 * float_1_001))
       then (Some ''UP'', Some 0.65)
       else if flt (Num (predicted_price r)) (float64 (1500 * float_0_999))
       then (Some ''DOWN'', Some 0.65)
       else (Some ''NEUTRAL'', Some 0.5))"
    by simp
  with r p show ?thesis
    by (simp add: threshold_up_1500)
qed

text \<open>
  With a latest close of 0.0 the guard \<open>if current_price\<close> is false: the prediction 1503 is
  above the close times 1.001, yet the record carries no direction and no probability.
\<close>

theorem direction_zero_price_counterexample:
  "\<exists>r. forecast_day example_model [price_row 0 0] [] 0 7 1 = Some r
       \<and> fgt (Num (predicted_price r)) (fmul64 (Num 0) (Num float_1_001))
       \<and> predicted_direction r = None \<and> direction_probability r = None"
proof -
  have price: "fetch_current_price [price_row 0 0] = Inr (Some (Num 0))"
    by (rule fetch_current_price_single)
  show ?thesis
    unfolding forecast_day_eval [OF example_model_model price]
    by (simp add: determine_direction_def fmul64_Num float64_def)
qed

subsection \<open>The loop over the forecast days\<close>

lemma forecast_loop_eq:
  "forecast_loop m market ls cd clock days acc =
     (if \<forall>d \<in> set days. forecast_day m (market (nat d)) ls cd (clock (nat (d + 1))) d \<noteq> None
      then Some (acc @ map (\<lambda>d. the (forecast_day m (market (nat d)) ls cd
                                        (clock (nat (d + 1))) d)) days)
      else None)"
  by (induction days arbitrary: acc) (auto split: option.splits)

lemma generate_predictions_cases:
  "generate_predictions lib m schema fs market clock n = [] \<or>
   (\<exists>ls. forecast_loop m market ls (clock 1) clock [1..n] []
            = Some (generate_predictions lib m schema fs market clock n))"
  unfolding generate_predictions_def Let_def
  by (simp split: prod.split option.split) blast

lemma upto_nth_int: "k < nat n \<Longrightarrow> [1..n] ! k = 1 + int k"
  by simp

lemma generate_predictions_nth:
  assumes "ps = generate_predictions lib m schema fs market clock n"
    and "ps \<noteq> []"
  shows "length ps = nat n \<and>
     (\<exists>ls. \<forall>k < length ps.
        forecast_day m (market (k + 1)) ls (clock 1) (clock (k + 2)) (1 + int k) = Some (ps ! k))"
proof -
  let ?day = "\<lambda>ls d. forecast_day m (market (nat d)) ls (clock 1) (clock (nat (d + 1))) d"
  from generate_predictions_cases [of lib m schema fs market clock n] assms
  obtain ls where loop: "forecast_loop m market ls (clock 1) clock [1..n] [] = Some ps"
    by auto
  have ok: "\<forall>d \<in> set [1..n]. ?day ls d \<noteq> None"
    using loop unfolding forecast_loop_eq by (simp split: if_splits)
  have ps: "ps = map (\<lambda>d. the (?day ls d)) [1..n]"
    using loop unfolding forecast_loop_eq by (simp split: if_splits)
  have len: "length ps = nat n"
    by (subst ps) simp
  have "forecast_day m (market (k + 1)) ls (clock 1) (clock (k + 2)) (1 + int k) = Some (ps ! k)"
    if "k < length ps" for k
  proof -
    from that len have k: "k < nat n" by simp
    then have mem: "1 + int k \<in> set [1..n]" by auto
    have n: "nat (1 + int k + 1) = k + 2" "nat (1 + int k) = k + 1" by simp_all
    from ok mem have "?day ls (1 + int k) \<noteq> None" by blast
    then obtain r where r: "?day ls (1 + int k) = Some r" by blast
    have "ps ! k = (\<lambda>d. the (?day ls d)) ([1..n] ! k)"
      using k by (subst ps) (simp del: upto.simps)
    also have "[1..n] ! k = 1 + int k"
      using k by (rule upto_nth_int)
    finally have "ps ! k = r" using r by simp
    with r n show ?thesis by simp
  qed
  with len show ?thesis by blast
qed

lemma generate_predictions_records:
  assumes "ps = generate_predictions lib m schema fs market clock n"
    and "i < length ps" and "j < length ps"
  shows "length ps = nat n"
    and "ps ! j = (ps ! i)\<lparr>prediction_timestamp := clock (j + 2),
                           target_timestamp := clock 1 + timedelta_days (1 + int j),
                           predicted_direction := predicted_direction (ps ! j),
                           direction_probability := direction_probability (ps ! j)\<rparr>"
    and "\<exists>cp. fetch_current_price (market (j + 1)) = Inr cp
           \<and> (predicted_direction (ps ! j), direction_probability (ps ! j))
               = determine_direction cp (predicted_price (ps ! j))"
proof -
  from assms(2) have ne: "ps \<noteq> []" by auto
  from generate_predictions_nth [OF assms(1) ne]
  obtain ls where len: "length ps = nat n"
    and nth: "\<And>k. k < length ps \<Longrightarrow>
        forecast_day m (market (k + 1)) ls (clock 1) (clock (k + 2)) (1 + int k) = Some (ps ! k)"
    by blast
  show "length ps = nat n" by (rule len)
  from forecast_day_same [OF nth [OF assms(2)] nth [OF assms(3)]]
  show "ps ! j = (ps ! i)\<lparr>prediction_timestamp := clock (j + 2),
                           target_timestamp := clock 1 + timedelta_days (1 + int j),
                           predicted_direction := predicted_direction (ps ! j),
                           direction_probability := direction_probability (ps ! j)\<rparr>" .
  from forecast_day_Some [OF nth [OF assms(3)]]
  obtain cp where cp: "fetch_current_price (market (j + 1)) = Inr cp" by blast
  from forecast_day_direction [OF nth [OF assms(3)] cp] cp
  show "\<exists>cp. fetch_current_price (market (j + 1)) = Inr cp
           \<and> (predicted_direction (ps ! j), direction_probability (ps ! j))
               = determine_direction cp (predicted_price (ps ! j))"
    by blast
qed

text \<open>When every step before the loop succeeds, the service emits one record per day.\<close>

lemma generate_predictions_eval:
  assumes df: "\<not> is_empty (fetch_latest_features schema fs (clock 0) 100)"
    and prep: "prepare_features lib (fetch_latest_features schema fs (clock 0) 100) = (df', fc)"
    and cols: "set fc \<subseteq> set (columns df')"
    and tr: "transform (scaler m) (map (last (rows df')) fc) = Some ls"
    and f: "model m = Some f"
    and cp: "\<And>k. fetch_current_price (market k) = Inr (cp k)"
  shows "generate_predictions lib m schema fs market clock n =
     map (\<lambda>d. \<lparr>predicted_price = f ls, confidence_lower = f ls, confidence_upper = f ls,
          symbol = service_symbol, prediction_timestamp = clock (nat (d + 1)),
          target_timestamp = clock 1 + timedelta_days d, confidence_level = 0.95,
          model_name = MODEL_NAME, model_version = MODEL_VERSION,
          feature_version = FEATURE_VERSION,
          predicted_direction = fst (determine_direction (cp (nat d)) (f ls)),
          direction_probability = snd (determine_direction (cp (nat d)) (f ls))\<rparr>) [1..n]"
  unfolding generate_predictions_def Let_def
  using df prep cols tr
  by (simp add: forecast_loop_eq forecast_day_eval [OF f cp] del: One_nat_def)

lemma example_ready:
  "\<not> is_empty (fetch_latest_features example_schema [example_feature_row] (example_clock 0) 100)
   \<and> (case prepare_features example_lib
             (fetch_latest_features example_schema [example_feature_row] (example_clock 0) 100) of
        (df', fc) \<Rightarrow> set fc \<subseteq> set (columns df')
           \<and> transform (scaler example_model) (map (last (rows df')) fc) \<noteq> None)"
  by code_simp

lemma example_run:
  assumes cp: "\<And>k. fetch_current_price (market k) = Inr (cp k)"
  shows "generate_predictions example_lib example_model example_schema [example_feature_row]
       market example_clock 2 =
     map (\<lambda>d. \<lparr>predicted_price = 1503, confidence_lower = 1503, confidence_upper = 1503,
          symbol = service_symbol, prediction_timestamp = example_clock (nat (d + 1)),
          target_timestamp = example_clock 1 + timedelta_days d, confidence_level = 0.95,
          model_name = MODEL_NAME, model_version = MODEL_VERSION,
          feature_version = FEATURE_VERSION,
          predicted_direction = fst (determine_direction (cp (nat d)) 1503),
          direction_probability = snd (determine_direction (cp (nat d)) 1503)\<rparr>) [1..2]"
proof -
  let ?df = "fetch_latest_features example_schema [example_feature_row] (example_clock 0) 100"
  obtain df' fc where prep: "prepare_features example_lib ?df = (df', fc)"
    by (cases "prepare_features example_lib ?df")
  from example_ready prep have ne: "\<not> is_empty ?df" and cols: "set fc \<subseteq> set (columns df')"
    and "transform (scaler example_model) (map (last (rows df')) fc) \<noteq> None"
    by simp_all
  then obtain ls where tr: "transform (scaler example_model) (map (last (rows df')) fc) = Some ls"
    by blast
  from generate_predictions_eval
    [where clock = example_clock and f = "\<lambda>_. 1503" and n = 2 and market = market and cp = cp,
      OF ne prep cols tr example_model_model cp]
  show ?thesis by simp
qed

lemma upto_1_2: "[1..2::int] = [1, 2]"
  by (simp add: upto.simps)

lemma steady_market_price: "fetch_current_price (steady_market k) = Inr (Some (Num 1500))"
  unfolding steady_market_def example_market_def by (rule fetch_current_price_single)

lemma fetch_current_price_later:
  "fetch_current_price [price_row 1 c', price_row 0 c] = Inr (Some (Num c'))"
  by (simp add: fetch_current_price_def latest_rows_def price_row_def service_symbol_def
      order_by_timestamp_def ts_of_def)

lemma changing_market_price:
  "fetch_current_price (changing_market k) = Inr (Some (Num (if k \<le> 1 then 1500 else 1510)))"
  by (simp add: changing_market_def example_market_def fetch_current_price_single
      fetch_current_price_later)

subsection \<open>The records of one run\<close>

text \<open>
  C10 (as amended).  The records of one run of \<open>generate_predictions\<close> over \<open>N\<close> days,
  when there are any, are \<open>N\<close> and carry the same predicted price, lower bound and upper
  bound.  Two of them differ at most in \<open>target_timestamp\<close>, in
  \<open>prediction_timestamp\<close>, which is the clock read in the turn of the loop that made the
  record, and in the direction and its probability, which follow the latest close that
  this turn reads from the price table.
\<close>

theorem forecasts_share_price_and_bounds:
  assumes "ps = generate_predictions lib m schema features_store market_data_raw clock forecast_days"
    and "i < length ps" and "j < length ps"
  shows "length ps = nat forecast_days
     \<and> predicted_price (ps ! j) = predicted_price (ps ! i)
     \<and> confidence_lower (ps ! j) = confidence_lower (ps ! i)
     \<and> confidence_upper (ps ! j) = confidence_upper (ps ! i)
     \<and> ps ! j = (ps ! i)\<lparr>prediction_timestamp := clock (j + 2),
                           target_timestamp := clock 1 + timedelta_days (1 + int j),
                           predicted_direction := predicted_direction (ps ! j),
                           direction_probability := direction_probability (ps ! j)\<rparr>
     \<and> (\<exists>cp. fetch_current_price (market_data_raw (j + 1)) = Inr cp
           \<and> (predicted_direction (ps ! j), direction_probability (ps ! j))
               = determine_direction cp (predicted_price (ps ! j)))"
proof -
  note eq = generate_predictions_records(2) [OF assms]
  have "predicted_price (ps ! j) = predicted_price (ps ! i)"
    by (subst eq) simp
  moreover have "confidence_lower (ps ! j) = confidence_lower (ps ! i)"
    by (subst eq) simp
  moreover have "confidence_upper (ps ! j) = confidence_upper (ps ! i)"
    by (subst eq) simp
  ultimately show ?thesis
    using generate_predictions_records(1) [OF assms] eq generate_predictions_records(3) [OF assms]
    by blast
qed

theorem forecasts_share_price_and_bounds_witness:
  "length (generate_predictions example_lib example_model example_schema [example_feature_row]
       steady_market example_clock 2) = 2
   \<and> predicted_price (generate_predictions example_lib example_model example_schema
        [example_feature_row] steady_market example_clock 2 ! 1)
     = predicted_price (generate_predictions example_lib example_model example_schema
        [example_feature_row] steady_market example_clock 2 ! 0)"
proof -
  let ?ps = "generate_predictions example_lib example_model example_schema [example_feature_row]
       steady_market example_clock 2"
  from example_run [of steady_market, OF steady_market_price] have len: "length ?ps = 2"
    by (simp add: upto_1_2)
  then have "0 < length ?ps" "1 < length ?ps" by simp_all
  from forecasts_share_price_and_bounds [OF refl this] len show ?thesis by simp
qed

text \<open>
  A run over two days with a clock that advances and a price table that receives a bar
  with the close 1510 between the two turns: the records differ in
  \<open>prediction_timestamp\<close> and in the direction, not only in \<open>target_timestamp\<close>.
\<close>

theorem other_fields_vary_counterexample:
  "prediction_timestamp (generate_predictions example_lib example_model example_schema
        [example_feature_row] changing_market example_clock 2 ! 0) = 2
   \<and> prediction_timestamp (generate_predictions example_lib example_model example_schema
        [example_feature_row] changing_market example_clock 2 ! 1) = 3
   \<and> predicted_direction (generate_predictions example_lib example_model example_schema
        [example_feature_row] changing_market example_clock 2 ! 0) = Some ''UP''
   \<and> predicted_direction (generate_predictions example_lib example_model example_schema
        [example_feature_row] changing_market example_clock 2 ! 1) = Some ''DOWN''"
  unfolding example_run [of changing_market, OF changing_market_price]
  by (simp add: upto_1_2 example_clock_def direction_1500_1503 direction_1510_1503)

subsection \<open>The confidence interval\<close>

lemma np_std_1_3: "np_std [1, 3] = 1"
  by (simp add: np_std_def)

lemma first_feature_batch:
  "predict first_feature_model [[Some 1], [Some 3]] cl =
     [\<lparr>predicted_price = 1, confidence_lower = 1 - 0.196, confidence_upper = 1 + 0.196\<rparr>,
      \<lparr>predicted_price = 3, confidence_lower = 3 - 0.196, confidence_upper = 3 + 0.196\<rparr>]"
  by (simp add: predict_def first_feature_model_def np_std_1_3)

text \<open>
  What \<open>predict\<close> computes: for each vector the point prediction \<open>p\<close> with the bounds
  \<open>p - 1.96 * s\<close> and \<open>p + 1.96 * s\<close>, where \<open>s\<close> is one tenth of the population standard
  deviation of the point predictions of the batch.  The parameter \<open>confidence_level\<close> is
  not read.
\<close>

lemma predict_interval:
  assumes "model m = Some f"
  shows "predict m X level =
       map (\<lambda>p. \<lparr>predicted_price = p,
                  confidence_lower = p - 1.96 * (np_std (map f X) * 0.1),
                  confidence_upper = p + 1.96 * (np_std (map f X) * 0.1)\<rparr>) (map f X)
     \<and> predict m X level = predict m X other_level"
  using assms by (simp add: predict_def Let_def)

text \<open>
  C8.  The claim asks for the half-width \<open>z(confidence_level) * estimated_std_error\<close>.
  The code, on a batch with the predictions 1 and 3 (standard error 0.1), returns the
  half-width 0.196 at the level 0.5 and at the level 0.99 alike, and the two results are
  equal: the requested level has no effect.
\<close>

theorem predict_ignores_confidence_level:
  "predict first_feature_model [[Some 1], [Some 3]] 0.5
     = predict first_feature_model [[Some 1], [Some 3]] 0.99
   \<and> confidence_upper (predict first_feature_model [[Some 1], [Some 3]] 0.99 ! 0)
       - predicted_price (predict first_feature_model [[Some 1], [Some 3]] 0.99 ! 0) = 0.196
   \<and> confidence_upper (predict first_feature_model [[Some 1], [Some 3]] 0.5 ! 0)
       - predicted_price (predict first_feature_model [[Some 1], [Some 3]] 0.5 ! 0) = 0.196"
  by (simp add: first_feature_batch)

section \<open>Properties of the model registry\<close>












section \<open>Properties of data frames\<close>

lemma length_rows_assign [simp]: "length (rows (assign c vs df)) = length (rows df)"
  by (simp add: assign_def)

lemma nth_rows_assign:
  "i < length (rows df) \<Longrightarrow> rows (assign c vs df) ! i = (rows df ! i)(c := nth_or_nan vs i)"
  by (simp add: assign_def nth_enumerate_eq)

lemma columns_assign: "set (columns (assign c vs df)) = insert c (set (columns df))"
  by (auto simp: assign_def)

lemma rows_assign_scalar: "rows (assign_scalar c v df) = map (\<lambda>r. r(c := v)) (rows df)"
  by (rule nth_equalityI) (simp_all add: assign_scalar_def nth_rows_assign nth_or_nan_def)

lemma columns_assign_scalar:
  "set (columns (assign_scalar c v df)) = insert c (set (columns df))"
  by (simp add: assign_scalar_def columns_assign)

lemma col_assign_other: "c' \<noteq> c \<Longrightarrow> col c' (assign c vs df) = col c' df"
  by (rule nth_equalityI) (simp_all add: col_def nth_rows_assign)

lemma length_col [simp]: "length (col c df) = length (rows df)"
  by (simp add: col_def)

lemma nth_col: "i < length (rows df) \<Longrightarrow> col c df ! i = (rows df ! i) c"
  by (simp add: col_def)

lemma nth_or_nan_divide_columns:
  "i < length xs \<Longrightarrow> length ys = length xs \<Longrightarrow>
     nth_or_nan (divide_columns xs ys) i = Val (fdiv (num (xs ! i)) (num (ys ! i)))"
  by (simp add: nth_or_nan_def divide_columns_def)

section \<open>Properties of the feature engineer\<close>

subsection \<open>Storage of the feature rows\<close>

lemma storage_rows:
  "prepare_features_for_storage df symb =
     map (\<lambda>r. map (\<lambda>c. (c, if r c = Val NaN then PyNone else r c))
                [c \<leftarrow> storage_columns. c \<in> insert ''feature_version'' (insert ''symbol'' (set (columns df)))])
       (map (\<lambda>r. r(''symbol'' := Str symb, ''feature_version'' := Str FEATURE_VERSION)) (rows df))"
  by (simp add: prepare_features_for_storage_def Let_def rows_assign_scalar
      columns_assign_scalar o_def)

lemma map_of_storage_record:
  assumes "c \<in> set cs"
  shows "map_of (map (\<lambda>c. (c, f c)) cs) c = Some (f c)"
  using assms by (induction cs) auto

text \<open>
  C6 (as amended).  \<open>prepare_features_for_storage\<close> emits one record for every row of
  the frame, in order: no row is left out.  A feature of the storage list that is a column
  of the frame is stored with its value, and as \<open>None\<close> when it is undefined (\<open>NaN\<close>) on
  that row, as the 50-day average is while its window is incomplete.
\<close>

theorem storage_keeps_every_row:
  assumes "i < length (rows df)"
    and "c \<in> set storage_columns" and "c \<in> set (columns df)"
    and "c \<noteq> ''symbol''" and "c \<noteq> ''feature_version''"
  shows "length (prepare_features_for_storage df symb) = length (rows df)
     \<and> map_of (prepare_features_for_storage df symb ! i) c
         = Some (if (rows df ! i) c = Val NaN then PyNone else (rows df ! i) c)"
proof -
  let ?cs = "[c \<leftarrow> storage_columns.
                c \<in> insert ''feature_version'' (insert ''symbol'' (set (columns df)))]"
  let ?f = "\<lambda>r c. if r c = Val NaN then PyNone else r c"
  let ?r = "(rows df ! i)(''symbol'' := Str symb, ''feature_version'' := Str FEATURE_VERSION)"
  have len: "length (prepare_features_for_storage df symb) = length (rows df)"
    by (simp add: storage_rows)
  have "prepare_features_for_storage df symb ! i = map (\<lambda>c. (c, ?f ?r c)) ?cs"
    using assms(1) by (simp add: storage_rows)
  moreover have "c \<in> set ?cs" using assms(2,3) by simp
  ultimately have "map_of (prepare_features_for_storage df symb ! i) c = Some (?f ?r c)"
    using map_of_storage_record [of c ?cs "?f ?r"] by simp
  with assms(4,5) len show ?thesis by simp
qed

theorem storage_keeps_every_row_witness:
  "length (prepare_features_for_storage warmup_frame ''HDFCBANK.NS'') = 1
   \<and> map_of (prepare_features_for_storage warmup_frame ''HDFCBANK.NS'' ! 0) ''sma_50''
       = Some PyNone"
proof -
  have "0 < length (rows warmup_frame)" "''sma_50'' \<in> set storage_columns"
    "''sma_50'' \<in> set (columns warmup_frame)" "''sma_50'' \<noteq> ''symbol''"
    "''sma_50'' \<noteq> ''feature_version''"
    by (simp_all add: warmup_frame_def storage_columns_def)
  from storage_keeps_every_row [OF this, of "''HDFCBANK.NS''"]
  show ?thesis by (simp add: warmup_frame_def)
qed

text \<open>
  The row of the warm-up period is emitted, with the 50-day average stored as \<open>None\<close>.
\<close>

theorem warmup_row_stored_counterexample:
  "prepare_features_for_storage warmup_frame ''HDFCBANK.NS'' =
     [[(''symbol'', Str ''HDFCBANK.NS''), (''timestamp'', Ts 0), (''feature_version'', Str ''v1''),
       (''sma_50'', PyNone)]]"
  by code_simp

subsection \<open>An empty primary series\<close>

lemma is_empty_empty_frame [simp]: "is_empty empty_frame"
  by (simp add: is_empty_def empty_frame_def)

lemma sort_key_Nil_iff: "sort_key f xs = [] \<longleftrightarrow> xs = []"
  by (metis length_0_conv length_sort)

text \<open>
  C4 (as amended).  When the price table has no bar of the primary symbol in the requested
  window, \<open>engineer_features\<close> logs the error \<open>No data available for\<close> the symbol and
  returns \<open>False\<close>, the value it returns on every failure; the feature store is as
  before, so that no feature row, partial or not, is emitted.
\<close>

theorem engineer_features_no_data:
  assumes "[r \<leftarrow> market_data_raw. r ''symbol'' = Str symb
              \<and> clock 0 - timedelta_days days_back \<le> ts_of r] = []"
  shows "engineer_features ta lib schema market_data_raw features_store clock symb days_back
     = \<lparr>success = False, store = features_store, errors = [''No data available for '' @ symb]\<rparr>"
proof -
  have "fetch_market_data schema market_data_raw (clock 0) symb days_back = empty_frame"
    using assms by (simp add: fetch_market_data_def order_by_timestamp_def Let_def)
  then show ?thesis
    by (simp add: engineer_features_def Let_def)
qed

theorem engineer_features_no_data_witness:
  "engineer_features example_ta example_lib example_schema
       [(price_row 0 950)(''symbol'' := Str ''ICICIBANK.NS'')] [example_feature_row]
       example_clock ''HDFCBANK.NS'' 365
     = \<lparr>success = False, store = [example_feature_row],
        errors = [''No data available for HDFCBANK.NS'']\<rparr>"
proof -
  have "[r \<leftarrow> [(price_row 0 950)(''symbol'' := Str ''ICICIBANK.NS'')].
            r ''symbol'' = Str ''HDFCBANK.NS''
              \<and> example_clock 0 - timedelta_days 365 \<le> ts_of r] = []"
    by simp
  from engineer_features_no_data [where clock = example_clock, OF this]
  show ?thesis by simp
qed

text \<open>
  The caller cannot tell the missing data from another failure.  The first run finds no bar
  of the symbol; the second finds one, and fails when it stores the records, on an
  on-balance volume that \<open>int\<close> does not convert.  Both return \<open>False\<close>, and neither
  returns a list of rows.
\<close>

theorem no_data_flag_not_distinct_counterexample:
  "success (engineer_features example_ta example_lib bar_schema
       [(price_row 0 950)(''symbol'' := Str ''ICICIBANK.NS'')] [example_feature_row]
       example_clock ''HDFCBANK.NS'' 365) = False
   \<and> \<not> is_empty (fetch_market_data bar_schema example_market (example_clock 0)
         ''HDFCBANK.NS'' 365)
   \<and> success (engineer_features overflow_ta example_lib bar_schema example_market
       [example_feature_row] example_clock ''HDFCBANK.NS'' 365) = False
   \<and> errors (engineer_features overflow_ta example_lib bar_schema example_market
       [example_feature_row] example_clock ''HDFCBANK.NS'' 365) = [''Error storing features'']"
  by code_simp

subsection \<open>Sector features\<close>

lemma merge_left_unmatched:
  assumes "l \<in> set left" and "\<forall>x \<in> set right. x ''timestamp'' \<noteq> l ''timestamp''"
  shows "l(c := Val NaN) \<in> set (merge_left c left right)"
proof -
  from assms(2) have "[r \<leftarrow> right. r ''timestamp'' = l ''timestamp''] = []"
    by (simp add: filter_empty_conv)
  with assms(1) show ?thesis
    by (auto simp: merge_left_def intro!: bexI [of _ l])
qed

lemma fdiv_NaN_right [simp]: "fdiv x NaN = NaN"
  by (cases x) simp_all

lemma sector_rows:
  assumes "has_timestamp_close df_primary" and "has_timestamp_close df_index"
    and "''returns_1d'' \<in> set (columns df_primary)"
    and "''close_index'' \<notin> set (columns df_primary)"
    and "''close_peer'' \<notin> set (columns df_primary)"
    and "list_all has_timestamp_close df_peers"
    and M: "M = merge_left ''close_index'' (rows df_primary) (rows df_index)"
    and out: "out = calculate_sector_features lib df_primary df_index df_peers"
  shows "length (rows out) = length M"
    and "i < length M \<Longrightarrow>
       (rows out ! i) ''timestamp'' = (M ! i) ''timestamp''
     \<and> (rows out ! i) ''close'' = (M ! i) ''close''
     \<and> (rows out ! i) ''close_index'' = (M ! i) ''close_index''
     \<and> (rows out ! i) ''relative_strength_sector''
         = Val (fdiv (num ((M ! i) ''close'')) (num ((M ! i) ''close_index'')))"
proof -
  define m0 where "m0 = merge_close ''close_index'' df_primary df_index"
  define m1 where "m1 = assign ''correlation_nifty_bank''
      (rolling_corr lib 20 (col ''returns_1d'' m0) (pct_change lib 1 (col ''close_index'' m0))) m0"
  define m2 where "m2 = assign ''relative_strength_sector''
      (divide_columns (col ''close'' m1) (col ''close_index'' m1)) m1"
  have rows0: "rows m0 = M" by (simp add: m0_def M merge_close_def)
  have len1: "length (rows m1) = length M" by (simp add: m1_def rows0)
  have len2: "length (rows m2) = length M" by (simp add: m2_def len1)
  have cases: "out = m2 \<or> (\<exists>vs. out = assign ''correlation_banking_peers'' vs m2)"
    using assms(1-6) unfolding out calculate_sector_features_def Let_def m0_def m1_def m2_def
    by (simp del: One_nat_def) blast
  then show "length (rows out) = length M"
    using len2 by auto
  assume i: "i < length M"
  have r1: "rows m1 ! i = (M ! i)(''correlation_nifty_bank'' := nth_or_nan
      (rolling_corr lib 20 (col ''returns_1d'' m0) (pct_change lib 1 (col ''close_index'' m0))) i)"
    using i by (simp add: m1_def nth_rows_assign rows0)
  have r2: "rows m2 ! i = (rows m1 ! i)(''relative_strength_sector'' :=
      Val (fdiv (num ((rows m1 ! i) ''close'')) (num ((rows m1 ! i) ''close_index''))))"
    using i len1 by (simp add: m2_def nth_rows_assign nth_or_nan_divide_columns nth_col)
  have r3: "(rows out ! i) c = (rows m2 ! i) c" if "c \<noteq> ''correlation_banking_peers''" for c
    using cases i len2 that by (auto simp: nth_rows_assign)
  show "(rows out ! i) ''timestamp'' = (M ! i) ''timestamp''
     \<and> (rows out ! i) ''close'' = (M ! i) ''close''
     \<and> (rows out ! i) ''close_index'' = (M ! i) ''close_index''
     \<and> (rows out ! i) ''relative_strength_sector''
         = Val (fdiv (num ((M ! i) ''close'')) (num ((M ! i) ''close_index'')))"
    by (simp add: r3 r2 r1)
qed

text \<open>
  C5 (as amended).  In the sector features the primary frame is joined to the index frame
  by equal timestamp with a left join, and on every row of the join the relative strength
  is the primary close divided by the index close of that row.  A primary row with no
  index bar at its timestamp is kept in the output, with an undefined index close and an
  undefined relative strength; no value of another timestamp is filled in.
\<close>

theorem sector_left_join:
  assumes "has_timestamp_close df_primary" and "has_timestamp_close df_index"
    and "''returns_1d'' \<in> set (columns df_primary)"
    and "''close_index'' \<notin> set (columns df_primary)"
    and "''close_peer'' \<notin> set (columns df_primary)"
    and "list_all has_timestamp_close df_peers"
  shows "map (\<lambda>r. (r ''timestamp'', r ''close'', r ''close_index'', r ''relative_strength_sector''))
           (rows (calculate_sector_features lib df_primary df_index df_peers))
       = map (\<lambda>m. (m ''timestamp'', m ''close'', m ''close_index'',
                    Val (fdiv (num (m ''close'')) (num (m ''close_index'')))))
           (merge_left ''close_index'' (rows df_primary) (rows df_index))
     \<and> (\<forall>l \<in> set (rows df_primary).
          (\<forall>x \<in> set (rows df_index). x ''timestamp'' \<noteq> l ''timestamp'') \<longrightarrow>
          (\<exists>r \<in> set (rows (calculate_sector_features lib df_primary df_index df_peers)).
             r ''timestamp'' = l ''timestamp'' \<and> r ''close'' = l ''close''
           \<and> r ''close_index'' = Val NaN \<and> r ''relative_strength_sector'' = Val NaN))"
proof -
  let ?out = "calculate_sector_features lib df_primary df_index df_peers"
  let ?M = "merge_left ''close_index'' (rows df_primary) (rows df_index)"
  note rows = sector_rows [where lib = lib, OF assms refl refl]
  have first: "map (\<lambda>r. (r ''timestamp'', r ''close'', r ''close_index'', r ''relative_strength_sector''))
           (rows ?out)
       = map (\<lambda>m. (m ''timestamp'', m ''close'', m ''close_index'',
                    Val (fdiv (num (m ''close'')) (num (m ''close_index''))))) ?M"
    by (rule nth_equalityI) (simp_all add: rows)
  have second: "\<exists>r \<in> set (rows ?out).
             r ''timestamp'' = l ''timestamp'' \<and> r ''close'' = l ''close''
           \<and> r ''close_index'' = Val NaN \<and> r ''relative_strength_sector'' = Val NaN"
    if l: "l \<in> set (rows df_primary)"
      and un: "\<forall>x \<in> set (rows df_index). x ''timestamp'' \<noteq> l ''timestamp''" for l
  proof -
    from merge_left_unmatched [OF l un, of "''close_index''"]
    obtain i where i: "i < length ?M" and Mi: "?M ! i = l(''close_index'' := Val NaN)"
      by (auto simp: in_set_conv_nth)
    from i rows(1) have "rows ?out ! i \<in> set (rows ?out)" by simp
    moreover from rows(2) [OF i] Mi
    have "(rows ?out ! i) ''timestamp'' = l ''timestamp'' \<and> (rows ?out ! i) ''close'' = l ''close''
       \<and> (rows ?out ! i) ''close_index'' = Val NaN
       \<and> (rows ?out ! i) ''relative_strength_sector'' = Val NaN"
      by (simp add: num_def)
    ultimately show ?thesis by blast
  qed
  from first second show ?thesis by blast
qed

theorem sector_left_join_witness:
  "map (\<lambda>r. (r ''timestamp'', r ''close'', r ''close_index'', r ''relative_strength_sector''))
     (rows (calculate_sector_features example_lib primary_frame primary_frame []))
   = [(Ts 0, Val (Num 1500), Val (Num 1500), Val (Num 1))]"
proof -
  have "has_timestamp_close primary_frame" "''returns_1d'' \<in> set (columns primary_frame)"
    "''close_index'' \<notin> set (columns primary_frame)"
    "''close_peer'' \<notin> set (columns primary_frame)" "list_all has_timestamp_close []"
    by (simp_all add: has_timestamp_close_def primary_frame_def)
  from sector_left_join [OF this(1) this(1) this(2-5), of example_lib]
  show ?thesis
    by (simp add: merge_left_def primary_frame_def num_def)
qed

text \<open>
  The index has no bar at the timestamp of the primary bar: the primary row is in the
  output, with an undefined index close and an undefined relative strength.
\<close>

theorem unmatched_row_retained_counterexample:
  "map (\<lambda>r. (r ''timestamp'', r ''close'', r ''close_index'', r ''relative_strength_sector''))
     (rows (calculate_sector_features example_lib primary_frame index_frame []))
   = [(Ts 0, Val (Num 1500), Val NaN, Val NaN)]"
  by code_simp

subsection \<open>Regime classification\<close>

lemma np_select_length [simp]: "length (np_select conditions choices dflt n) = n"
  by (simp add: np_select_def)

lemma np_select_three:
  assumes "i < n"
  shows "np_select [c1, c2, c3] [a1, a2, a3] dflt n ! i =
     (if i < length c1 \<and> c1 ! i then a1
      else if i < length c2 \<and> c2 ! i then a2
      else if i < length c3 \<and> c3 ! i then a3 else dflt)"
  using assms by (simp add: np_select_def)

lemma classify_regime_row:
  assumes cols: "{''sma_5'', ''sma_20'', ''sma_50'', ''volatility_20d''} \<subseteq> set (columns df)"
    and i: "i < length (rows df)"
    and r: "r = rows df ! i"
    and th: "threshold = rolling_mean lib 50 (col ''volatility_20d'' df)"
  shows "length (rows (classify_regime lib df)) = length (rows df)"
    and "''regime_classification'' \<in> set (columns (classify_regime lib df))"
    and "(rows (classify_regime lib df) ! i) ''regime_classification'' =
       Str (if trend_up_row r \<and> fgt (trend_strength_row r) (Num 0.02) then ''trending_up''
            else if trend_down_row r \<and> fgt (trend_strength_row r) (Num 0.02) then ''trending_down''
            else if i < length threshold
                   \<and> fgt (num (r ''volatility_20d'')) (fmul (num (threshold ! i)) (Num 1.5))
                 then ''high_volatility''
            else ''ranging'')"
proof -
  define d3 where "d3 = assign ''trend_strength'' (map Val (map trend_strength_row (rows df)))
     (assign ''trend_down'' (map Bool (map trend_down_row (rows df)))
       (assign ''trend_up'' (map Bool (map trend_up_row (rows df))) df))"
  have len3: "length (rows d3) = length (rows df)" by (simp add: d3_def)
  have vol3: "col ''volatility_20d'' d3 = col ''volatility_20d'' df"
    by (simp add: d3_def col_assign_other)
  have cols3: "''volatility_20d'' \<in> set (columns d3)"
    using cols by (simp add: d3_def columns_assign)
  define sel where "sel = np_select
     [map (\<lambda>(t, s). t \<and> s) (zip (map trend_up_row (rows df))
             (map (\<lambda>s. fgt s (Num 0.02)) (map trend_strength_row (rows df)))),
      map (\<lambda>(t, s). t \<and> s) (zip (map trend_down_row (rows df))
             (map (\<lambda>s. fgt s (Num 0.02)) (map trend_strength_row (rows df)))),
      map (\<lambda>(v, m). fgt (num v) (fmul (num m) (Num 1.5)))
          (zip (col ''volatility_20d'' df) threshold)]
     [''trending_up'', ''trending_down'', ''high_volatility''] ''ranging'' (length (rows df))"
  have out: "classify_regime lib df = assign ''regime_classification'' (map Str sel) d3"
    using cols cols3 unfolding classify_regime_def Let_def d3_def [symmetric]
    by (simp add: vol3 len3 sel_def th)
  show "length (rows (classify_regime lib df)) = length (rows df)"
    by (simp add: out len3)
  show "''regime_classification'' \<in> set (columns (classify_regime lib df))"
    by (simp add: out columns_assign)
  have "(rows (classify_regime lib df) ! i) ''regime_classification'' = Str (sel ! i)"
    using i by (simp add: out nth_rows_assign len3 nth_or_nan_def sel_def)
  also have "sel ! i =
       (if trend_up_row r \<and> fgt (trend_strength_row r) (Num 0.02) then ''trending_up''
        else if trend_down_row r \<and> fgt (trend_strength_row r) (Num 0.02) then ''trending_down''
        else if i < length threshold
               \<and> fgt (num (r ''volatility_20d'')) (fmul (num (threshold ! i)) (Num 1.5))
             then ''high_volatility''
        else ''ranging'')"
    unfolding sel_def using i by (auto simp add: np_select_three r nth_col)
  finally show "(rows (classify_regime lib df) ! i) ''regime_classification'' =
       Str (if trend_up_row r \<and> fgt (trend_strength_row r) (Num 0.02) then ''trending_up''
            else if trend_down_row r \<and> fgt (trend_strength_row r) (Num 0.02) then ''trending_down''
            else if i < length threshold
                   \<and> fgt (num (r ''volatility_20d'')) (fmul (num (threshold ! i)) (Num 1.5))
                 then ''high_volatility''
            else ''ranging'')" .
qed

subsection \<open>One-hot encoding of the regime\<close>

lemma lag_name_not_regime:
  "c \<in> set lag_features \<Longrightarrow> c @ ''_lag1'' \<noteq> ''regime_classification''
     \<and> c @ ''_lag2'' \<noteq> ''regime_classification''"
  by (auto simp: lag_features_def)

lemma add_lags_regime:
  assumes "c \<in> set lag_features"
  shows "col ''regime_classification'' (fst (add_lags s c)) = col ''regime_classification'' (fst s)"
    and "''regime_classification'' \<in> set (columns (fst s))
           \<Longrightarrow> ''regime_classification'' \<in> set (columns (fst (add_lags s c)))"
    and "set (snd (add_lags s c)) \<subseteq> set (snd s) \<union> {c @ ''_lag1'', c @ ''_lag2''}"
  using lag_name_not_regime [OF assms]
  by (auto simp: add_lags_def Let_def col_assign_other columns_assign split: prod.splits)

lemma foldl_add_lags_regime:
  assumes "set cs \<subseteq> set lag_features"
  shows "col ''regime_classification'' (fst (foldl add_lags s cs))
           = col ''regime_classification'' (fst s)
     \<and> (''regime_classification'' \<in> set (columns (fst s))
           \<longrightarrow> ''regime_classification'' \<in> set (columns (fst (foldl add_lags s cs))))
     \<and> set (snd (foldl add_lags s cs))
           \<subseteq> set (snd s) \<union> (\<Union>c \<in> set cs. {c @ ''_lag1'', c @ ''_lag2''})"
  using assms
proof (induction cs arbitrary: s)
  case Nil
  then show ?case by simp
next
  case (Cons c cs)
  then have c: "c \<in> set lag_features" and cs: "set cs \<subseteq> set lag_features" by simp_all
  from Cons.IH [OF cs, of "add_lags s c"] add_lags_regime [OF c, of s]
  show ?case by auto
qed

lemma add_rolling_regime:
  "col ''regime_classification'' (fst (add_rolling lib s)) = col ''regime_classification'' (fst s)"
  "''regime_classification'' \<in> set (columns (fst s))
     \<Longrightarrow> ''regime_classification'' \<in> set (columns (fst (add_rolling lib s)))"
  "set (snd (add_rolling lib s))
     \<subseteq> set (snd s) \<union> {''returns_1d_rolling_mean_5'', ''returns_1d_rolling_std_5''}"
  by (auto simp: add_rolling_def Let_def col_assign_other columns_assign split: prod.splits)

lemma rows_init_flags:
  "rows (foldl init_regime_flag df all_regimes) =
     map (\<lambda>r. r(''regime_high_volatility'' := Val (Num 0), ''regime_ranging'' := Val (Num 0),
                ''regime_trending_down'' := Val (Num 0), ''regime_trending_up'' := Val (Num 0)))
       (rows df)"
  by (simp add: all_regimes_def init_regime_flag_def rows_assign_scalar regime_col_def o_def)

lemma columns_init_flags:
  "set (columns (foldl init_regime_flag df all_regimes))
     = set (map regime_col all_regimes) \<union> set (columns df)"
  by (auto simp: all_regimes_def init_regime_flag_def columns_assign_scalar)

lemma columns_set_flags:
  "columns (foldl set_regime_flag df rs) = columns df"
  by (induction rs arbitrary: df) (simp_all add: set_regime_flag_def)

lemma rows_set_flags:
  "rows (foldl set_regime_flag df rs) =
     map (\<lambda>r. foldl (\<lambda>r x. if r ''regime_classification'' = Str x
                              then r(regime_col x := Val (Num 1)) else r) r rs) (rows df)"
  by (induction rs arbitrary: df) (simp_all add: set_regime_flag_def o_def)

lemma rows_encode_regime:
  assumes "''regime_classification'' \<in> set (columns df)"
  shows "rows (fst (encode_regime (df, fc))) =
     map (\<lambda>r. foldl (\<lambda>r x. if r ''regime_classification'' = Str x
                              then r(regime_col x := Val (Num 1)) else r)
                 (r(''regime_high_volatility'' := Val (Num 0), ''regime_ranging'' := Val (Num 0),
                    ''regime_trending_down'' := Val (Num 0), ''regime_trending_up'' := Val (Num 0)))
                 all_regimes) (rows df)"
  using assms
  by (simp add: encode_regime_def Let_def rows_set_flags rows_init_flags o_def)

lemma encode_regime_row:
  assumes "''regime_classification'' \<in> set (columns df)"
    and "i < length (rows df)"
  shows "length (rows (fst (encode_regime (df, fc)))) = length (rows df)"
    and "(rows (fst (encode_regime (df, fc))) ! i) ''regime_classification''
           = (rows df ! i) ''regime_classification''"
    and "y \<in> set all_regimes \<Longrightarrow>
         (rows (fst (encode_regime (df, fc))) ! i) (regime_col y)
           = Val (Num (if (rows df ! i) ''regime_classification'' = Str y then 1 else 0))"
  using assms(2)
  by (auto simp: rows_encode_regime [OF assms(1)] all_regimes_def regime_col_def)

lemma encode_regime_columns:
  assumes "''regime_classification'' \<in> set (columns df)"
    and "\<forall>c \<in> set (map regime_col all_regimes). c \<notin> set fc"
  shows "set (map regime_col all_regimes) \<subseteq> set (columns (fst (encode_regime (df, fc))))"
    and "set (map regime_col all_regimes) \<subseteq> set (snd (encode_regime (df, fc)))"
  using assms
  by (auto simp: encode_regime_def Let_def columns_set_flags columns_init_flags)

lemma prepared_columns_fresh:
  "\<forall>c \<in> set (map regime_col all_regimes).
     c \<notin> set (snd (add_rolling lib (foldl add_lags (df, base_feature_columns) lag_features)))"
proof -
  let ?s1 = "foldl add_lags (df, base_feature_columns) lag_features"
  have "set (snd (add_rolling lib ?s1))
      \<subseteq> set base_feature_columns \<union> (\<Union>c \<in> set lag_features. {c @ ''_lag1'', c @ ''_lag2''})
        \<union> {''returns_1d_rolling_mean_5'', ''returns_1d_rolling_std_5''}"
    using add_rolling_regime(3) [of lib ?s1]
      foldl_add_lags_regime [OF subset_refl, of "(df, base_feature_columns)"]
    by auto
  moreover have "\<forall>c \<in> set (map regime_col all_regimes).
      c \<notin> set base_feature_columns \<union> (\<Union>c \<in> set lag_features. {c @ ''_lag1'', c @ ''_lag2''})
        \<union> {''returns_1d_rolling_mean_5'', ''returns_1d_rolling_std_5''}"
    by (simp add: all_regimes_def regime_col_def base_feature_columns_def lag_features_def)
  ultimately show ?thesis by blast
qed

lemma one_hot_sum:
  "x \<in> set all_regimes \<Longrightarrow> sum_list (map (\<lambda>y. if y = x then 1 else 0) all_regimes) = (1::real)"
  by (auto simp: all_regimes_def)

text \<open>
  C2.  Take the frame to which the feature engineer adds the regime, and any frame that
  carries the regimes so computed in its column \<open>regime_classification\<close> (the frame
  itself, or the rows read back from the feature store).  After \<open>prepare_features\<close> the
  four regime columns are columns of the frame and feature columns, and on every row they
  hold 1 for the regime of the row and 0 for the three others, so that their sum is 1.  The
  regime of a row is the first that applies of trending up, trending down and high
  volatility, and ranging when none applies.
\<close>

theorem regime_one_hot:
  assumes cols: "{''sma_5'', ''sma_20'', ''sma_50'', ''volatility_20d''} \<subseteq> set (columns df)"
    and stored_col: "''regime_classification'' \<in> set (columns stored)"
    and stored: "col ''regime_classification'' stored
                   = col ''regime_classification'' (classify_regime lib df)"
    and prep: "prepare_features lib' stored = (g, fc)"
    and i: "i < length (rows df)"
    and r: "r = rows df ! i"
    and th: "threshold = rolling_mean lib 50 (col ''volatility_20d'' df)"
    and x: "x = (if trend_up_row r \<and> fgt (trend_strength_row r) (Num 0.02) then ''trending_up''
            else if trend_down_row r \<and> fgt (trend_strength_row r) (Num 0.02) then ''trending_down''
            else if i < length threshold
                   \<and> fgt (num (r ''volatility_20d'')) (fmul (num (threshold ! i)) (Num 1.5))
                 then ''high_volatility''
            else ''ranging'')"
  shows "length (rows g) = length (rows df)
     \<and> set (map regime_col all_regimes) \<subseteq> set (columns g)
     \<and> set (map regime_col all_regimes) \<subseteq> set fc
     \<and> x \<in> set all_regimes
     \<and> map (\<lambda>y. (rows g ! i) (regime_col y)) all_regimes
         = map (\<lambda>y. Val (Num (if y = x then 1 else 0))) all_regimes
     \<and> sum_list (map (\<lambda>y. if y = x then 1 else 0) all_regimes) = (1::real)"
proof -
  let ?rc = "''regime_classification''"
  let ?C = "classify_regime lib df"
  let ?s1 = "foldl add_lags (stored, base_feature_columns) lag_features"
  obtain d2 f2 where s2: "add_rolling lib' ?s1 = (d2, f2)"
    by (cases "add_rolling lib' ?s1")
  have xin: "x \<in> set all_regimes"
    by (simp add: x all_regimes_def)
  have C_len: "length (rows ?C) = length (rows df)"
    and C_i: "(rows ?C ! i) ?rc = Str x"
    using classify_regime_row [OF cols i r th] x by simp_all
  have col2: "col ?rc d2 = col ?rc ?C"
    using add_rolling_regime(1) [of lib' ?s1] s2
      foldl_add_lags_regime [OF subset_refl, of "(stored, base_feature_columns)"] stored
    by simp
  have in2: "?rc \<in> set (columns d2)"
    using add_rolling_regime(2) [of ?s1 lib'] s2
      foldl_add_lags_regime [OF subset_refl, of "(stored, base_feature_columns)"] stored_col
    by simp
  have fresh: "\<forall>c \<in> set (map regime_col all_regimes). c \<notin> set f2"
    using prepared_columns_fresh [of lib' stored] s2 by simp
  from col2 have len2: "length (rows d2) = length (rows df)"
    using C_len by (metis length_col)
  with i have i2: "i < length (rows d2)" by simp
  have v2: "(rows d2 ! i) ?rc = Str x"
    using col2 C_i i i2 C_len by (metis nth_col)
  have g: "g = fst (encode_regime (d2, f2))" and fc: "fc = snd (encode_regime (d2, f2))"
    using prep s2 by (simp_all add: prepare_features_def)
  have "length (rows g) = length (rows df)"
    unfolding g using encode_regime_row(1) [OF in2 i2, of f2] len2 by simp
  moreover have "set (map regime_col all_regimes) \<subseteq> set (columns g)"
    unfolding g by (rule encode_regime_columns(1) [OF in2 fresh])
  moreover have "set (map regime_col all_regimes) \<subseteq> set fc"
    unfolding fc by (rule encode_regime_columns(2) [OF in2 fresh])
  moreover have "map (\<lambda>y. (rows g ! i) (regime_col y)) all_regimes
         = map (\<lambda>y. Val (Num (if y = x then 1 else 0))) all_regimes"
  proof (rule map_cong [OF refl])
    fix y assume "y \<in> set all_regimes"
    from encode_regime_row(3) [OF in2 i2 this, of f2] v2
    show "(rows g ! i) (regime_col y) = Val (Num (if y = x then 1 else 0))"
      unfolding g by auto
  qed
  ultimately show ?thesis
    using xin one_hot_sum [OF xin] by blast
qed

lemma trend_frame_regime:
  "(if trend_up_row (rows trend_frame ! 0)
        \<and> fgt (trend_strength_row (rows trend_frame ! 0)) (Num 0.02) then ''trending_up''
    else if trend_down_row (rows trend_frame ! 0)
        \<and> fgt (trend_strength_row (rows trend_frame ! 0)) (Num 0.02) then ''trending_down''
    else if 0 < length (rolling_mean example_lib 50 (col ''volatility_20d'' trend_frame))
           \<and> fgt (num ((rows trend_frame ! 0) ''volatility_20d''))
                 (fmul (num (rolling_mean example_lib 50 (col ''volatility_20d'' trend_frame) ! 0))
                    (Num 1.5))
         then ''high_volatility''
    else ''ranging'') = ''trending_up''"
  by (simp add: trend_frame_def trend_up_row_def trend_strength_row_def num_def fsub_def)

theorem regime_one_hot_witness:
  "map (\<lambda>y. (rows (fst (prepare_features example_lib (classify_regime example_lib trend_frame))) ! 0)
             (regime_col y)) all_regimes
     = [Val (Num 0), Val (Num 0), Val (Num 0), Val (Num 1)]
   \<and> set (map regime_col all_regimes)
       \<subseteq> set (snd (prepare_features example_lib (classify_regime example_lib trend_frame)))"
proof -
  have cols: "{''sma_5'', ''sma_20'', ''sma_50'', ''volatility_20d''} \<subseteq> set (columns trend_frame)"
    and i: "0 < length (rows trend_frame)"
    by (simp_all add: trend_frame_def)
  have stored_col: "''regime_classification'' \<in> set (columns (classify_regime example_lib trend_frame))"
    by (rule classify_regime_row(2) [OF cols i refl refl])
  from regime_one_hot [OF cols stored_col refl surjective_pairing i refl refl refl,
      where lib' = example_lib]
  show ?thesis
    unfolding trend_frame_regime by (simp add: all_regimes_def)
qed

section \<open>Properties of the dataset constructor\<close>

subsection \<open>Reading the prices\<close>

declare fetch_all_prices.simps [simp del]

lemma fetch_all_prices_eq:
  "fetch_all_prices data range_start all_prices = all_prices @ drop range_start data"
proof (induction data range_start all_prices rule: fetch_all_prices.induct)
  case (1 data range_start all_prices)
  let ?page = "take 1000 (drop range_start data)"
  show ?case
  proof (cases "?page = []")
    case True
    then have "drop range_start data = []" by simp
    with True show ?thesis
      by (subst fetch_all_prices.simps) (simp add: Let_def)
  next
    case False
    show ?thesis
    proof (cases "length ?page < 1000")
      case True
      then have "?page = drop range_start data" by simp
      with False True show ?thesis
        by (subst fetch_all_prices.simps) (simp add: Let_def)
    next
      case long: False
      have "fetch_all_prices data range_start all_prices
          = fetch_all_prices data (range_start + 1000) (all_prices @ ?page)"
        using False long by (subst fetch_all_prices.simps) (simp add: Let_def)
      also have "\<dots> = (all_prices @ ?page) @ drop (range_start + 1000) data"
        using False long by (intro "1.IH" [OF refl]) simp_all
      also have "\<dots> = all_prices @ drop range_start data"
        by (simp add: add.commute [of range_start] flip: drop_drop)
      finally show ?thesis .
    qed
  qed
qed

lemma fetch_all_prices_all [simp]: "fetch_all_prices data 0 [] = data"
  by (simp add: fetch_all_prices_eq)

subsection \<open>Shifting and dates\<close>

lemma shift_up_nth:
  assumes "0 < h"
  shows "nth_or_nan (shift (- h) cs) k
           = (if k + nat h < length cs then cs ! (k + nat h) else Val NaN)"
proof -
  have sh: "shift (- h) cs = drop (nat h) cs @ replicate (min (length cs) (nat h)) (Val NaN)"
    using assms by (simp add: shift_def)
  show ?thesis
  proof (cases "k + nat h < length cs")
    case True
    then have "k < length cs - nat h" by simp
    with True show ?thesis
      by (simp add: sh nth_or_nan_def nth_append add.commute)
  next
    case False
    show ?thesis
    proof (cases "k < length (shift (- h) cs)")
      case in_range: True
      then have "k - (length cs - nat h) < min (length cs) (nat h)"
        using False by (simp add: sh) linarith
      then have "replicate (min (length cs) (nat h)) (Val NaN) ! (k - (length cs - nat h)) = Val NaN"
        by (rule nth_replicate)
      moreover from False have "\<not> k < length cs - nat h" by linarith
      ultimately show ?thesis
        using False in_range by (simp add: sh nth_or_nan_def nth_append)
    next
      case out: False
      with \<open>\<not> k + nat h < length cs\<close> show ?thesis
        by (simp add: nth_or_nan_def)
    qed
  qed
qed

lemma date_str_mono: "date_str a < date_str b \<Longrightarrow> a < b"
proof (rule ccontr)
  assume lt: "date_str a < date_str b" and "\<not> a < b"
  then have "b \<le> a" by simp
  then have "b div day_us \<le> a div day_us"
    by (rule zdiv_mono1) (simp add: day_us_def)
  with lt show False by (simp add: date_str_def)
qed

lemma rows_with_date_str:
  "rows (with_date_str df) = map (\<lambda>r. r(''date_str'' := Date (date_str (ts_of r)))) (rows df)"
  by (rule nth_equalityI) (simp_all add: with_date_str_def nth_rows_assign nth_or_nan_def)

lemma joined_row:
  assumes "m \<in> set (joined df all_prices)"
  shows "\<exists>l \<in> set (rows df). \<exists>p \<in> set all_prices.
     date_str (ts_of p) = date_str (ts_of l)
     \<and> m = l(''date_str'' := Date (date_str (ts_of l)), ''close'' := p ''close'')"
  using assms
  apply (clarsimp simp: joined_def merge_inner_def rows_with_date_str)
  apply blast
  done

lemma joined_date:
  assumes "m \<in> set (joined df all_prices)"
  shows "date_of m = date_str (ts_of m)"
  using joined_row [OF assms] by (auto simp: date_of_def ts_of_def)

lemma joined_sorted: "sorted (map date_of (joined df all_prices))"
  by (simp add: joined_def)

lemma joined_strict:
  assumes "distinct (map date_of (joined df all_prices))"
    and "k < k'" and "k' < length (joined df all_prices)"
  shows "date_of (joined df all_prices ! k) < date_of (joined df all_prices ! k')"
proof -
  let ?ds = "map date_of (joined df all_prices)"
  have "?ds ! k \<le> ?ds ! k'"
    using joined_sorted [of df all_prices] assms(2,3) by (intro sorted_nth_mono) simp_all
  moreover have "?ds ! k \<noteq> ?ds ! k'"
    using nth_eq_iff_index_eq [OF assms(1), of k k'] assms(2,3) by simp
  ultimately show ?thesis using assms(2,3) by simp
qed

subsection \<open>The rows that are kept\<close>

lemma rows_assign_upt:
  "rows (assign c vs df)
     = map (\<lambda>i. (rows df ! i)(c := nth_or_nan vs i)) [0..<length (rows df)]"
  by (rule nth_equalityI) (simp_all add: nth_rows_assign)

lemma create_sequences_Inr:
  assumes run: "create_sequences fc df market h = (logged, Inr (X, y, timestamps))"
    and J: "J = joined df (order_by_timestamp [r \<leftarrow> market. r ''symbol'' = Str ''HDFCBANK.NS''])"
    and T: "T = (\<lambda>k. (J ! k)(''target'' := nth_or_nan (shift (- h) (map (\<lambda>r. r ''close'') J)) k))"
    and ks: "ks = [k \<leftarrow> [0..<length J]. \<forall>c \<in> set (fc @ [''target'']). \<not> isna (T k c)]"
  shows "X = map (\<lambda>k. map (T k) fc) ks"
    and "y = map (\<lambda>k. T k ''target'') ks"
    and "timestamps = map (\<lambda>k. T k ''timestamp'') ks"
proof -
  let ?prices = "order_by_timestamp [r \<leftarrow> market. r ''symbol'' = Str ''HDFCBANK.NS'']"
  let ?M = "\<lparr>columns = columns (with_date_str df) @ [''close''], rows = J\<rparr>"
  let ?kept = "[r \<leftarrow> rows (assign ''target'' (shift (- h) (col ''close'' ?M)) ?M).
                  \<forall>c \<in> set (fc @ [''target'']). \<not> isna (r c)]"
  have res: "X = map (\<lambda>r. map r fc) ?kept \<and> y = map (\<lambda>r. r ''target'') ?kept
      \<and> timestamps = map (\<lambda>r. r ''timestamp'') ?kept"
    using run unfolding create_sequences_def Let_def J joined_def
    by (simp split: if_splits)
  have kept: "?kept = map T ks"
    unfolding rows_assign_upt ks T filter_map
    by (simp add: col_def o_def)
  from res show "X = map (\<lambda>k. map (T k) fc) ks"
    and "y = map (\<lambda>k. T k ''target'') ks"
    and "timestamps = map (\<lambda>k. T k ''timestamp'') ks"
    unfolding kept by (simp_all add: o_def)
qed

end
